theory Spec2Isabelle
  imports Complex_Main "HOL-Library.Word" "HOL-Library.AList"
begin

section \<open>BLE advertisement decoding: iBeacon and Eddystone frames\<close>

text \<open>
  A shallow embedding of the decoder of the two scanner scripts, \<^verbatim>\<open>ble_scanner.py\<close>
  and \<^verbatim>\<open>ble_scanner_to_csv.py\<close>. Both define a class \<^verbatim>\<open>BeaconScanner\<close> with the
  methods \<^verbatim>\<open>parse_ibeacon\<close>, \<^verbatim>\<open>parse_eddystone\<close> and \<^verbatim>\<open>parse_manufacturer_data\<close>;
  the methods of the second script carry the prefix \<open>csv_\<close> here. The methods read
  only the constant \<^verbatim>\<open>APPLE_COMPANY_ID\<close> of the object, so they are functions of
  their argument.
\<close>

subsection \<open>Python values\<close>

text \<open>
  A \<^verbatim>\<open>bytes\<close> object is a list of 8-bit words. A result dictionary maps string keys
  to strings, integers and floats; it is an association list in insertion order,
  and \<^const>\<open>AList.update\<close> is Python's item assignment (an existing key keeps its place,
  a new key goes last). The only float the decoder computes is a 16-bit integer
  divided by \<^verbatim>\<open>256.0\<close>, which binary floating point represents exactly, so a float
  is modelled by the rational number it denotes.
\<close>

type_synonym byte = "8 word"
type_synonym bytes = "byte list"

datatype pyval = PyStr string | PyInt int | PyFloat rat

type_synonym pydict = "(string \<times> pyval) list"

text \<open>
  The exceptions the parsers' bodies can raise: \<^verbatim>\<open>IndexError\<close> from indexing past the
  end, \<^verbatim>\<open>struct.error\<close> from unpacking a buffer of the wrong size. A computation that
  may raise returns \<open>exn + 'a\<close>, with \<open>Inl\<close> the exception.
\<close>

datatype exn = IndexError | StructError

fun try_bind :: "exn + 'a \<Rightarrow> ('a \<Rightarrow> exn + 'b) \<Rightarrow> exn + 'b" where
  "try_bind (Inl e) f = Inl e"
| "try_bind (Inr x) f = f x"

subsection \<open>Library functions the decoder calls\<close>

text \<open>\<^verbatim>\<open>b[i:j]\<close> for literal \<open>0 \<le> i \<le> j\<close> never raises: it is cut at the end of \<open>b\<close>.\<close>

definition slice :: "nat \<Rightarrow> nat \<Rightarrow> 'a list \<Rightarrow> 'a list" where
  "slice i j xs = take (j - i) (drop i xs)"

text \<open>\<^verbatim>\<open>b[i]\<close> for a literal \<open>i \<ge> 0\<close> raises \<^verbatim>\<open>IndexError\<close> past the end.\<close>

definition index_at :: "bytes \<Rightarrow> nat \<Rightarrow> exn + byte" where
  "index_at b i = (if i < length b then Inr (b ! i) else Inl IndexError)"

text \<open>\<^verbatim>\<open>bytes.hex()\<close>: two lowercase hexadecimal digits for each byte.\<close>

definition hex_digit :: "nat \<Rightarrow> char" where
  "hex_digit n = ''0123456789abcdef'' ! (n mod 16)"

definition HEX_digit :: "nat \<Rightarrow> char" where
  "HEX_digit n = ''0123456789ABCDEF'' ! (n mod 16)"

definition byte_hex :: "byte \<Rightarrow> string" where
  "byte_hex b = [hex_digit (unat b div 16), hex_digit (unat b mod 16)]"

definition bytes_hex :: "bytes \<Rightarrow> string" where
  "bytes_hex bs = concat (map byte_hex bs)"

text \<open>The hexadecimal digits of a natural number, most significant first, at least one.\<close>

fun digits16 :: "(nat \<Rightarrow> char) \<Rightarrow> nat \<Rightarrow> string" where
  "digits16 dg n = (if n < 16 then [dg n] else digits16 dg (n div 16) @ [dg (n mod 16)])"

declare digits16.simps [simp del]

text \<open>\<^verbatim>\<open>hex(n)\<close> for \<open>n \<ge> 0\<close>, and the format \<^verbatim>\<open>f"0x{n:04X}"\<close>.\<close>

definition py_hex :: "nat \<Rightarrow> string" where
  "py_hex n = ''0x'' @ digits16 hex_digit n"

definition format_0x04X :: "nat \<Rightarrow> string" where
  "format_0x04X n =
     (let s = digits16 HEX_digit n in ''0x'' @ replicate (4 - length s) CHR ''0'' @ s)"

text \<open>\<^verbatim>\<open>sep.join(parts)\<close>.\<close>

fun str_join :: "string \<Rightarrow> string list \<Rightarrow> string" where
  "str_join sep [] = []"
| "str_join sep [x] = x"
| "str_join sep (x # y # ys) = x @ sep @ str_join sep (y # ys)"

text \<open>
  \<^verbatim>\<open>struct.unpack(fmt, buf)[0]\<close> for the formats used: \<^verbatim>\<open>"b"\<close> (signed byte),
  \<^verbatim>\<open>">H"\<close> and \<^verbatim>\<open>">h"\<close> (big-endian unsigned and signed 16 bits), \<^verbatim>\<open>">I"\<close> (big-endian
  unsigned 32 bits). It raises \<^verbatim>\<open>struct.error\<close> unless the buffer has exactly the
  size of the format.
\<close>

definition be_uint :: "bytes \<Rightarrow> int" where
  "be_uint bs = foldl (\<lambda>acc b. acc * 256 + uint b) 0 bs"

definition unpack_b :: "bytes \<Rightarrow> exn + int" where
  "unpack_b buf = (if length buf = 1 then Inr (sint (buf ! 0)) else Inl StructError)"

definition unpack_BE_H :: "bytes \<Rightarrow> exn + int" where
  "unpack_BE_H buf = (if length buf = 2 then Inr (be_uint buf) else Inl StructError)"

definition unpack_BE_h :: "bytes \<Rightarrow> exn + int" where
  "unpack_BE_h buf =
     (if length buf = 2
      then Inr (let u = be_uint buf in if u < 32768 then u else u - 65536)
      else Inl StructError)"

definition unpack_BE_I :: "bytes \<Rightarrow> exn + int" where
  "unpack_BE_I buf = (if length buf = 4 then Inr (be_uint buf) else Inl StructError)"

text \<open>\<^verbatim>\<open>d.update(e)\<close>: the items of \<open>e\<close> are assigned in order.\<close>

definition dict_update :: "pydict \<Rightarrow> pydict \<Rightarrow> pydict" where
  "dict_update d e = fold (\<lambda>(k, v). AList.update k v) e d"

text \<open>
  The clause \<^verbatim>\<open>except Exception: return None\<close> around a parser's body. Both
  \<^verbatim>\<open>IndexError\<close> and \<^verbatim>\<open>struct.error\<close> derive from \<^verbatim>\<open>Exception\<close>.
\<close>

fun except_Exception :: "exn + pydict option \<Rightarrow> exn + pydict option" where
  "except_Exception (Inl IndexError) = Inr None"
| "except_Exception (Inl StructError) = Inr None"
| "except_Exception (Inr r) = Inr r"

text \<open>The truth value of \<^verbatim>\<open>if ibeacon_data:\<close> for \<^verbatim>\<open>None\<close> or a dictionary.\<close>

fun truthy :: "pydict option \<Rightarrow> bool" where
  "truthy None = False"
| "truthy (Some d) = (d \<noteq> [])"

subsection \<open>\<^verbatim>\<open>ble_scanner.py\<close>\<close>

definition APPLE_COMPANY_ID :: nat where
  "APPLE_COMPANY_ID = 0x004C"

definition parse_ibeacon_body :: "bytes \<Rightarrow> exn + pydict option" where
  "parse_ibeacon_body mfg_data =
     (let ibeacon_prefix = slice 0 2 mfg_data in
      if length mfg_data < 23 then Inr None
      else
        let uuid_bytes = slice 2 18 mfg_data in
        try_bind (unpack_BE_H (slice 18 20 mfg_data)) (\<lambda>major.
        try_bind (unpack_BE_H (slice 20 22 mfg_data)) (\<lambda>minor.
        try_bind (unpack_b (slice 22 23 mfg_data)) (\<lambda>tx_power.
        Inr (Some
          [(''type'', PyStr ''iBeacon''),
           (''uuid'', PyStr (str_join ''-''
              [bytes_hex (slice 0 4 uuid_bytes),
               bytes_hex (slice 4 6 uuid_bytes),
               bytes_hex (slice 6 8 uuid_bytes),
               bytes_hex (slice 8 10 uuid_bytes),
               bytes_hex (slice 10 16 uuid_bytes)])),
           (''major'', PyInt major),
           (''minor'', PyInt minor),
           (''tx_power'', PyInt tx_power),
           (''raw_data'', PyStr (bytes_hex mfg_data))])))))"

definition parse_ibeacon :: "bytes \<Rightarrow> exn + pydict option" where
  "parse_ibeacon mfg_data = except_Exception (parse_ibeacon_body mfg_data)"

definition parse_eddystone_body :: "bytes \<Rightarrow> exn + pydict option" where
  "parse_eddystone_body service_data =
     try_bind (index_at service_data 0) (\<lambda>frame_type.
     let result =
       [(''type'', PyStr ''Eddystone''),
        (''frame_type'', PyStr (py_hex (unat frame_type))),
        (''raw_data'', PyStr (bytes_hex service_data))]
     in
     if frame_type = 0x00 then
       try_bind (unpack_b (slice 1 2 service_data)) (\<lambda>tx_power.
       Inr (Some (dict_update result
         [(''frame_type_name'', PyStr ''UID''),
          (''tx_power'', PyInt tx_power),
          (''namespace'', PyStr (bytes_hex (slice 2 12 service_data))),
          (''instance'', PyStr (bytes_hex (slice 12 18 service_data)))])))
     else if frame_type = 0x10 then
       try_bind (unpack_b (slice 1 2 service_data)) (\<lambda>tx_power.
       try_bind (index_at service_data 2) (\<lambda>url_scheme.
       Inr (Some (dict_update result
         [(''frame_type_name'', PyStr ''URL''),
          (''tx_power'', PyInt tx_power),
          (''url_scheme'', PyInt (uint url_scheme)),
          (''encoded_url'', PyStr (bytes_hex (drop 3 service_data)))]))))
     else if frame_type = 0x20 then
       try_bind (index_at service_data 1) (\<lambda>version.
       try_bind (unpack_BE_H (slice 2 4 service_data)) (\<lambda>battery_voltage.
       try_bind (unpack_BE_h (slice 4 6 service_data)) (\<lambda>temperature.
       try_bind (unpack_BE_I (slice 6 10 service_data)) (\<lambda>advertising_count.
       try_bind (unpack_BE_I (slice 10 14 service_data)) (\<lambda>seconds_since_boot.
       Inr (Some (dict_update result
         [(''frame_type_name'', PyStr ''TLM''),
          (''version'', PyInt (uint version)),
          (''battery_voltage'', PyInt battery_voltage),
          (''temperature'', PyFloat (of_int temperature / 256)),
          (''advertising_count'', PyInt advertising_count),
          (''seconds_since_boot'', PyInt seconds_since_boot)])))))))
     else Inr (Some result))"

definition parse_eddystone :: "bytes \<Rightarrow> exn + pydict option" where
  "parse_eddystone service_data = except_Exception (parse_eddystone_body service_data)"

text \<open>
  \<^verbatim>\<open>parse_manufacturer_data\<close>: the loop over \<^verbatim>\<open>mfg_data.items()\<close>, the items of the
  dictionary in insertion order, with the dictionary \<^verbatim>\<open>result\<close> built so far.
\<close>

fun parse_manufacturer_loop :: "pydict \<Rightarrow> (nat \<times> bytes) list \<Rightarrow> exn + pydict" where
  "parse_manufacturer_loop result [] = Inr result"
| "parse_manufacturer_loop result ((company_id, data) # items) =
     (let result1 = AList.update ''company_id'' (PyStr (format_0x04X company_id)) result in
      if company_id = APPLE_COMPANY_ID then
        (case parse_ibeacon data of
           Inl e \<Rightarrow> Inl e
         | Inr ibeacon_data \<Rightarrow>
             if truthy ibeacon_data
             then parse_manufacturer_loop (dict_update result1 (the ibeacon_data)) items
             else parse_manufacturer_loop result1 items)
      else
        parse_manufacturer_loop
          (AList.update ''raw_data'' (PyStr (bytes_hex data)) result1) items)"

definition parse_manufacturer_data :: "(nat \<times> bytes) list \<Rightarrow> exn + pydict" where
  "parse_manufacturer_data mfg_data = parse_manufacturer_loop [] mfg_data"

subsection \<open>\<^verbatim>\<open>ble_scanner_to_csv.py\<close>\<close>

definition csv_parse_ibeacon_body :: "bytes \<Rightarrow> exn + pydict option" where
  "csv_parse_ibeacon_body mfg_data =
     (if length mfg_data < 23 then Inr None
      else
        let uuid_bytes = slice 2 18 mfg_data in
        try_bind (unpack_BE_H (slice 18 20 mfg_data)) (\<lambda>major.
        try_bind (unpack_BE_H (slice 20 22 mfg_data)) (\<lambda>minor.
        try_bind (unpack_b (slice 22 23 mfg_data)) (\<lambda>tx_power.
        Inr (Some
          [(''beacon_type'', PyStr ''iBeacon''),
           (''uuid'', PyStr (str_join ''-''
              [bytes_hex (slice 0 4 uuid_bytes),
               bytes_hex (slice 4 6 uuid_bytes),
               bytes_hex (slice 6 8 uuid_bytes),
               bytes_hex (slice 8 10 uuid_bytes),
               bytes_hex (slice 10 16 uuid_bytes)])),
           (''major'', PyInt major),
           (''minor'', PyInt minor),
           (''tx_power'', PyInt tx_power),
           (''raw_data'', PyStr (bytes_hex mfg_data))])))))"

definition csv_parse_ibeacon :: "bytes \<Rightarrow> exn + pydict option" where
  "csv_parse_ibeacon mfg_data = except_Exception (csv_parse_ibeacon_body mfg_data)"

definition csv_parse_eddystone_body :: "bytes \<Rightarrow> exn + pydict option" where
  "csv_parse_eddystone_body service_data =
     try_bind (index_at service_data 0) (\<lambda>frame_type.
     let result =
       [(''beacon_type'', PyStr ''Eddystone''),
        (''frame_type'', PyStr (py_hex (unat frame_type))),
        (''raw_data'', PyStr (bytes_hex service_data))]
     in
     if frame_type = 0x00 then
       try_bind (unpack_b (slice 1 2 service_data)) (\<lambda>tx_power.
       Inr (Some (dict_update result
         [(''frame_type'', PyStr ''UID''),
          (''tx_power'', PyInt tx_power),
          (''namespace'', PyStr (bytes_hex (slice 2 12 service_data))),
          (''instance'', PyStr (bytes_hex (slice 12 18 service_data)))])))
     else if frame_type = 0x10 then
       try_bind (unpack_b (slice 1 2 service_data)) (\<lambda>tx_power.
       Inr (Some (dict_update result
         [(''frame_type'', PyStr ''URL''),
          (''tx_power'', PyInt tx_power)])))
     else if frame_type = 0x20 then
       try_bind (unpack_BE_H (slice 2 4 service_data)) (\<lambda>battery_voltage.
       try_bind (unpack_BE_h (slice 4 6 service_data)) (\<lambda>temperature.
       Inr (Some (dict_update result
         [(''frame_type'', PyStr ''TLM''),
          (''battery_voltage'', PyInt battery_voltage),
          (''temperature'', PyFloat (of_int temperature / 256))]))))
     else Inr (Some result))"

definition csv_parse_eddystone :: "bytes \<Rightarrow> exn + pydict option" where
  "csv_parse_eddystone service_data =
     except_Exception (csv_parse_eddystone_body service_data)"

fun csv_parse_manufacturer_loop :: "pydict \<Rightarrow> (nat \<times> bytes) list \<Rightarrow> exn + pydict" where
  "csv_parse_manufacturer_loop result [] = Inr result"
| "csv_parse_manufacturer_loop result ((company_id, data) # items) =
     (let result1 = AList.update ''company_id'' (PyStr (format_0x04X company_id)) result in
      if company_id = APPLE_COMPANY_ID then
        (case csv_parse_ibeacon data of
           Inl e \<Rightarrow> Inl e
         | Inr ibeacon_data \<Rightarrow>
             if truthy ibeacon_data
             then csv_parse_manufacturer_loop (dict_update result1 (the ibeacon_data)) items
             else csv_parse_manufacturer_loop result1 items)
      else
        csv_parse_manufacturer_loop
          (AList.update ''raw_data'' (PyStr (bytes_hex data)) result1) items)"

definition csv_parse_manufacturer_data :: "(nat \<times> bytes) list \<Rightarrow> exn + pydict" where
  "csv_parse_manufacturer_data mfg_data = csv_parse_manufacturer_loop [] mfg_data"

subsection \<open>Notions used to state the properties\<close>

text \<open>
  What a caller reads from a parser's outcome with \<^verbatim>\<open>result.get(k)\<close>: the value of
  key \<open>k\<close> when the parser returned a dictionary, and nothing when it returned
  \<^verbatim>\<open>None\<close> or raised.
\<close>

fun result_get :: "string \<Rightarrow> exn + pydict option \<Rightarrow> pyval option" where
  "result_get k (Inr (Some r)) = map_of r k"
| "result_get k _ = None"

text \<open>
  The canonical text of a UUID from its 32 hexadecimal digits: hyphens after the
  digits of byte 4, byte 6, byte 8 and byte 10.
\<close>

definition hyphenate_8_4_4_4_12 :: "string \<Rightarrow> string" where
  "hyphenate_8_4_4_4_12 h =
     take 8 h @ ''-'' @ take 4 (drop 8 h) @ ''-'' @ take 4 (drop 12 h) @ ''-'' @
     take 4 (drop 16 h) @ ''-'' @ take 12 (drop 20 h)"

text \<open>The UUID bytes of the known-good iBeacon buffer.\<close>

definition known_good_uuid :: bytes where
  "known_good_uuid =
     [0xE2, 0xC5, 0x6D, 0xB5, 0xDF, 0xFB, 0x48, 0xD2, 0xB0, 0x60, 0xD0, 0xF5, 0xA7, 0x10, 0x96, 0xE0]"

text \<open>The telemetry buffer 20 00 0BE4 0C98 00000005 00000578.\<close>

definition TLM_example :: bytes where
  "TLM_example =
     [0x20, 0x00, 0x0B, 0xE4, 0x0C, 0x98, 0x00, 0x00, 0x00, 0x05, 0x00, 0x00, 0x05, 0x78]"

text \<open>A telemetry buffer with a negative temperature and one trailing byte.\<close>

definition TLM_cold :: bytes where
  "TLM_cold =
     [0x20, 0x01, 0x0C, 0x1C, 0xFF, 0x80, 0x00, 0x00, 0x01, 0x00, 0x00, 0x01, 0x00, 0x00, 0xAA]"

text \<open>A URL frame with scheme byte 7, outside the table of four scheme prefixes.\<close>

definition URL_example :: bytes where
  "URL_example = [0x10, 0xEE, 0x07, 0x61, 0x62]"

text \<open>A UID frame of 17 bytes, one short of the 18 bytes of a full frame.\<close>

definition UID_17_bytes :: bytes where
  "UID_17_bytes =
     [0x00, 0xEE, 0x01, 0x02, 0x03, 0x04, 0x05, 0x06, 0x07, 0x08, 0x09, 0x0A,
      0x0B, 0x0C, 0x0D, 0x0E, 0x0F]"

text \<open>The known-good iBeacon buffer with the prefix bytes 02 15.\<close>

definition iBeacon_example :: bytes where
  "iBeacon_example = 0x02 # 0x15 # known_good_uuid @ [0x00, 0x01, 0x00, 0x02, 0xC5]"

text \<open>
  Hexadecimal decoding, \<^verbatim>\<open>bytes.fromhex\<close> of the standard library, on text without
  white space: two digits of either case for each byte; \<^verbatim>\<open>None\<close> stands for its
  \<^verbatim>\<open>ValueError\<close>.
\<close>

definition hex_value :: "char \<Rightarrow> nat option" where
  "hex_value c = map_of
     [(CHR ''0'', 0), (CHR ''1'', 1), (CHR ''2'', 2), (CHR ''3'', 3), (CHR ''4'', 4),
      (CHR ''5'', 5), (CHR ''6'', 6), (CHR ''7'', 7), (CHR ''8'', 8), (CHR ''9'', 9),
      (CHR ''a'', 10), (CHR ''b'', 11), (CHR ''c'', 12), (CHR ''d'', 13), (CHR ''e'', 14),
      (CHR ''f'', 15), (CHR ''A'', 10), (CHR ''B'', 11), (CHR ''C'', 12), (CHR ''D'', 13),
      (CHR ''E'', 14), (CHR ''F'', 15)] c"

fun bytes_fromhex :: "string \<Rightarrow> bytes option" where
  "bytes_fromhex [] = Some []"
| "bytes_fromhex [c] = None"
| "bytes_fromhex (c1 # c2 # cs) =
     (case hex_value c1 of
        None \<Rightarrow> None
      | Some h \<Rightarrow>
          (case hex_value c2 of
             None \<Rightarrow> None
           | Some l \<Rightarrow>
               (case bytes_fromhex cs of
                  None \<Rightarrow> None
                | Some bs \<Rightarrow> Some (of_nat (16 * h + l) # bs))))"

text \<open>A 3-byte payload, too short for an iBeacon frame.\<close>

definition short_apple_payload :: bytes where
  "short_apple_payload = [0x02, 0x15, 0x01]"

text \<open>The 3-byte payload of the entry 0x0999.\<close>

definition other_payload :: bytes where
  "other_payload = [0x01, 0x02, 0x03]"

section \<open>Properties\<close>

subsection \<open>Hexadecimal text, slices and unpacking\<close>

lemma length_byte_hex: "length (byte_hex b) = 2"
  by (simp add: byte_hex_def)

lemma length_bytes_hex: "length (bytes_hex bs) = 2 * length bs"
  by (induction bs) (simp_all add: bytes_hex_def length_byte_hex)

lemma bytes_hex_append: "bytes_hex (xs @ ys) = bytes_hex xs @ bytes_hex ys"
  by (simp add: bytes_hex_def)

lemma bytes_hex_take: "bytes_hex (take n bs) = take (2 * n) (bytes_hex bs)"
proof (induction bs arbitrary: n)
  case Nil
  then show ?case by (simp add: bytes_hex_def)
next
  case (Cons b bs)
  show ?case
  proof (cases n)
    case 0
    then show ?thesis by (simp add: bytes_hex_def)
  next
    case (Suc m)
    have "bytes_hex (take n (b # bs)) = byte_hex b @ bytes_hex (take m bs)"
      using Suc by (simp add: bytes_hex_def)
    also have "\<dots> = byte_hex b @ take (2 * m) (bytes_hex bs)"
      by (simp add: Cons.IH)
    also have "\<dots> = take (2 * n) (byte_hex b @ bytes_hex bs)"
      using Suc by (simp add: length_byte_hex)
    finally show ?thesis by (simp add: bytes_hex_def)
  qed
qed

lemma bytes_hex_drop: "bytes_hex (drop n bs) = drop (2 * n) (bytes_hex bs)"
proof (induction bs arbitrary: n)
  case Nil
  then show ?case by (simp add: bytes_hex_def)
next
  case (Cons b bs)
  show ?case
  proof (cases n)
    case 0
    then show ?thesis by simp
  next
    case (Suc m)
    have "bytes_hex (drop n (b # bs)) = bytes_hex (drop m bs)"
      using Suc by simp
    also have "\<dots> = drop (2 * m) (bytes_hex bs)"
      by (simp add: Cons.IH)
    also have "\<dots> = drop (2 * n) (byte_hex b @ bytes_hex bs)"
      using Suc by (simp add: length_byte_hex)
    finally show ?thesis by (simp add: bytes_hex_def)
  qed
qed

lemma bytes_hex_slice: "bytes_hex (slice i j bs) = take (2 * (j - i)) (drop (2 * i) (bytes_hex bs))"
  by (simp add: slice_def bytes_hex_take bytes_hex_drop)

lemma take_Suc_drop:
  "i < length xs \<Longrightarrow> take (Suc n) (drop i xs) = xs ! i # take n (drop (Suc i) xs)"
  by (simp add: Cons_nth_drop_Suc [symmetric])

lemma slice_one: "i < length xs \<Longrightarrow> slice i (i + 1) xs = [xs ! i]"
  by (simp add: slice_def take_Suc_drop)

lemma slice_two: "i + 2 \<le> length xs \<Longrightarrow> slice i (i + 2) xs = [xs ! i, xs ! (i + 1)]"
  by (simp add: slice_def numeral_2_eq_2 take_Suc_drop)

lemma slice_four:
  "i + 4 \<le> length xs \<Longrightarrow>
     slice i (i + 4) xs = [xs ! i, xs ! (i + 1), xs ! (i + 2), xs ! (i + 3)]"
proof -
  assume a: "i + 4 \<le> length xs"
  have "take (Suc (Suc (Suc (Suc 0)))) (drop i xs)
        = [xs ! i, xs ! Suc i, xs ! Suc (Suc i), xs ! Suc (Suc (Suc i))]"
    using a by (simp add: take_Suc_drop)
  moreover have "(i + 4) - i = Suc (Suc (Suc (Suc 0)))" by simp
  ultimately show ?thesis
    by (simp add: slice_def eval_nat_numeral)
qed

lemma unpack_BE_H_pair: "unpack_BE_H [a, b] = Inr (uint a * 256 + uint b)"
  by (simp add: unpack_BE_H_def be_uint_def)

lemma unpack_b_single: "unpack_b [a] = Inr (sint a)"
  by (simp add: unpack_b_def)

lemma uuid_groups:
  assumes "18 \<le> length d"
  shows "str_join ''-''
          [bytes_hex (slice 0 4 (slice 2 18 d)), bytes_hex (slice 4 6 (slice 2 18 d)),
           bytes_hex (slice 6 8 (slice 2 18 d)), bytes_hex (slice 8 10 (slice 2 18 d)),
           bytes_hex (slice 10 16 (slice 2 18 d))]
         = hyphenate_8_4_4_4_12 (bytes_hex (take 16 (drop 2 d)))"
  by (simp add: hyphenate_8_4_4_4_12_def bytes_hex_slice slice_def bytes_hex_take bytes_hex_drop)

lemma parse_ibeacon_body_long:
  assumes "23 \<le> length d"
  shows "parse_ibeacon_body d = Inr (Some
          [(''type'', PyStr ''iBeacon''),
           (''uuid'', PyStr (hyphenate_8_4_4_4_12 (bytes_hex (take 16 (drop 2 d))))),
           (''major'', PyInt (uint (d ! 18) * 256 + uint (d ! 19))),
           (''minor'', PyInt (uint (d ! 20) * 256 + uint (d ! 21))),
           (''tx_power'', PyInt (sint (d ! 22))),
           (''raw_data'', PyStr (bytes_hex d))])"
proof -
  have a: "slice 18 20 d = [d ! 18, d ! 19]" using slice_two [of 18 d] assms by simp
  have b: "slice 20 22 d = [d ! 20, d ! 21]" using slice_two [of 20 d] assms by simp
  have c: "slice 22 23 d = [d ! 22]" using slice_one [of 22 d] assms by simp
  have u: "18 \<le> length d" using assms by simp
  show ?thesis
    unfolding parse_ibeacon_body_def Let_def a b c uuid_groups [OF u]
    using assms by (simp add: unpack_BE_H_pair unpack_b_single)
qed


lemma csv_parse_ibeacon_body_long:
  assumes "23 \<le> length d"
  shows "csv_parse_ibeacon_body d = Inr (Some
          [(''beacon_type'', PyStr ''iBeacon''),
           (''uuid'', PyStr (hyphenate_8_4_4_4_12 (bytes_hex (take 16 (drop 2 d))))),
           (''major'', PyInt (uint (d ! 18) * 256 + uint (d ! 19))),
           (''minor'', PyInt (uint (d ! 20) * 256 + uint (d ! 21))),
           (''tx_power'', PyInt (sint (d ! 22))),
           (''raw_data'', PyStr (bytes_hex d))])"
proof -
  have a: "slice 18 20 d = [d ! 18, d ! 19]" using slice_two [of 18 d] assms by simp
  have b: "slice 20 22 d = [d ! 20, d ! 21]" using slice_two [of 20 d] assms by simp
  have c: "slice 22 23 d = [d ! 22]" using slice_one [of 22 d] assms by simp
  have u: "18 \<le> length d" using assms by simp
  show ?thesis
    unfolding csv_parse_ibeacon_body_def Let_def a b c uuid_groups [OF u]
    using assms by (simp add: unpack_BE_H_pair unpack_b_single)
qed

lemmas parse_ibeacon_long =
  parse_ibeacon_body_long [THEN arg_cong [where f = except_Exception], folded parse_ibeacon_def]

lemmas csv_parse_ibeacon_long =
  csv_parse_ibeacon_body_long [THEN arg_cong [where f = except_Exception], folded csv_parse_ibeacon_def]

subsection \<open>The iBeacon parser on buffers of at least 23 bytes\<close>

lemma hex_known_good_uuid:
  "hyphenate_8_4_4_4_12 (bytes_hex known_good_uuid) = ''e2c56db5-dffb-48d2-b060-d0f5a71096e0''"
  by (simp add: known_good_uuid_def hyphenate_8_4_4_4_12_def bytes_hex_def byte_hex_def hex_digit_def)

text \<open>
  Claim C1. On every buffer of at least 23 bytes the iBeacon parser of either script
  returns a dictionary whose \<^verbatim>\<open>uuid\<close> is the lowercase hexadecimal text of bytes 2 to
  17 with hyphens in the 8-4-4-4-12 grouping, whose \<^verbatim>\<open>major\<close> and \<^verbatim>\<open>minor\<close> are the
  unsigned big-endian 16-bit integers at offsets 18 and 20, and whose \<^verbatim>\<open>tx_power\<close> is
  the signed byte at offset 22. The known-good buffer (any two prefix bytes, the
  UUID bytes E2 C5 ... 96 E0, major 0x0001, minor 0x0002, power byte 0xC5) decodes to
  \<^verbatim>\<open>e2c56db5-dffb-48d2-b060-d0f5a71096e0\<close>, 1, 2 and -59.
\<close>

theorem C1_parse_ibeacon_decodes:
  "(23 \<le> length d \<longrightarrow>
      result_get ''uuid'' (parse_ibeacon d)
        = Some (PyStr (hyphenate_8_4_4_4_12 (bytes_hex (take 16 (drop 2 d))))) \<and>
      result_get ''major'' (parse_ibeacon d) = Some (PyInt (uint (d ! 18) * 256 + uint (d ! 19))) \<and>
      result_get ''minor'' (parse_ibeacon d) = Some (PyInt (uint (d ! 20) * 256 + uint (d ! 21))) \<and>
      result_get ''tx_power'' (parse_ibeacon d) = Some (PyInt (sint (d ! 22))) \<and>
      result_get ''uuid'' (csv_parse_ibeacon d)
        = Some (PyStr (hyphenate_8_4_4_4_12 (bytes_hex (take 16 (drop 2 d))))) \<and>
      result_get ''major'' (csv_parse_ibeacon d) = Some (PyInt (uint (d ! 18) * 256 + uint (d ! 19))) \<and>
      result_get ''minor'' (csv_parse_ibeacon d) = Some (PyInt (uint (d ! 20) * 256 + uint (d ! 21))) \<and>
      result_get ''tx_power'' (csv_parse_ibeacon d) = Some (PyInt (sint (d ! 22))))
   \<and> (\<forall>p0 p1. \<forall>parse \<in> {parse_ibeacon, csv_parse_ibeacon}.
        result_get ''uuid'' (parse (p0 # p1 # known_good_uuid @ [0x00, 0x01, 0x00, 0x02, 0xC5]))
          = Some (PyStr ''e2c56db5-dffb-48d2-b060-d0f5a71096e0'') \<and>
        result_get ''major'' (parse (p0 # p1 # known_good_uuid @ [0x00, 0x01, 0x00, 0x02, 0xC5]))
          = Some (PyInt 1) \<and>
        result_get ''minor'' (parse (p0 # p1 # known_good_uuid @ [0x00, 0x01, 0x00, 0x02, 0xC5]))
          = Some (PyInt 2) \<and>
        result_get ''tx_power'' (parse (p0 # p1 # known_good_uuid @ [0x00, 0x01, 0x00, 0x02, 0xC5]))
          = Some (PyInt (- 59)))"
proof (intro conjI impI allI ballI)
  fix p0 p1 :: byte and parse
  assume p: "parse \<in> {parse_ibeacon, csv_parse_ibeacon}"
  let ?d = "p0 # p1 # known_good_uuid @ [0x00, 0x01, 0x00, 0x02, 0xC5]"
  have len: "23 \<le> length ?d" by (simp add: known_good_uuid_def)
  have tk: "take 16 (drop 2 ?d) = known_good_uuid" by (simp add: known_good_uuid_def)
  have nths: "?d ! 18 = 0" "?d ! 19 = 1" "?d ! 20 = 0" "?d ! 21 = 2" "?d ! 22 = 0xC5"
    by (simp_all add: known_good_uuid_def)
  have r: "parse ?d = Inr (Some
          [(if parse = parse_ibeacon then ''type'' else ''beacon_type'', PyStr ''iBeacon''),
           (''uuid'', PyStr ''e2c56db5-dffb-48d2-b060-d0f5a71096e0''),
           (''major'', PyInt 1), (''minor'', PyInt 2), (''tx_power'', PyInt (- 59)),
           (''raw_data'', PyStr (bytes_hex ?d))])"
    using p parse_ibeacon_long [OF len] csv_parse_ibeacon_long [OF len]
    unfolding tk nths hex_known_good_uuid by auto
  show "result_get ''uuid'' (parse ?d) = Some (PyStr ''e2c56db5-dffb-48d2-b060-d0f5a71096e0'')"
    unfolding r by simp
  show "result_get ''major'' (parse ?d) = Some (PyInt 1)" unfolding r by simp
  show "result_get ''minor'' (parse ?d) = Some (PyInt 2)" unfolding r by simp
  show "result_get ''tx_power'' (parse ?d) = Some (PyInt (- 59))" unfolding r by simp
qed (simp_all add: parse_ibeacon_long csv_parse_ibeacon_long)

text \<open>The theorem at a 23-byte buffer with major 0x1234, minor 0xABCD and power byte 0x7F.\<close>

theorem C1_parse_ibeacon_witness:
  "23 \<le> length (0x02 # 0x15 # known_good_uuid @ [0x12, 0x34, 0xAB, 0xCD, 0x7F :: byte]) \<and>
   result_get ''uuid'' (parse_ibeacon (0x02 # 0x15 # known_good_uuid @ [0x12, 0x34, 0xAB, 0xCD, 0x7F]))
     = Some (PyStr ''e2c56db5-dffb-48d2-b060-d0f5a71096e0'') \<and>
   result_get ''major'' (parse_ibeacon (0x02 # 0x15 # known_good_uuid @ [0x12, 0x34, 0xAB, 0xCD, 0x7F]))
     = Some (PyInt 0x1234) \<and>
   result_get ''minor'' (csv_parse_ibeacon (0x02 # 0x15 # known_good_uuid @ [0x12, 0x34, 0xAB, 0xCD, 0x7F]))
     = Some (PyInt 0xABCD) \<and>
   result_get ''tx_power'' (csv_parse_ibeacon (0x02 # 0x15 # known_good_uuid @ [0x12, 0x34, 0xAB, 0xCD, 0x7F]))
     = Some (PyInt 127)"
proof -
  let ?d = "0x02 # 0x15 # known_good_uuid @ [0x12, 0x34, 0xAB, 0xCD, 0x7F :: byte]"
  have len: "23 \<le> length ?d" by (simp add: known_good_uuid_def)
  have tk: "take 16 (drop 2 ?d) = known_good_uuid" by (simp add: known_good_uuid_def)
  have nths: "?d ! 18 = 0x12" "?d ! 19 = 0x34" "?d ! 20 = 0xAB" "?d ! 21 = 0xCD" "?d ! 22 = 0x7F"
    by (simp_all add: known_good_uuid_def)
  show ?thesis
    using C1_parse_ibeacon_decodes [of ?d] len
    unfolding tk nths hex_known_good_uuid by simp
qed

subsection \<open>The Eddystone parser, frame by frame\<close>

lemma signed16_sint:
  assumes "0 \<le> u" "u < 65536"
  shows "(if u < 32768 then u else u - 65536) = sint (word_of_int u :: 16 word)"
proof -
  have "sint (word_of_int u :: 16 word) = (u + 32768) mod 65536 - 32768"
    by (simp add: sint_sbintrunc' signed_take_bit_eq_take_bit_shift take_bit_eq_mod)
  moreover have "(u + 32768) mod 65536 = (if u < 32768 then u + 32768 else u - 32768)"
  proof (cases "u < 32768")
    case True
    then show ?thesis using assms by simp
  next
    case False
    have e: "u + 32768 = (u - 32768) + 65536" by arith
    have "(u + 32768) mod 65536 = (u - 32768) mod 65536"
      by (subst e) (simp only: mod_add_self2)
    also have "\<dots> = u - 32768" using False assms by simp
    finally show ?thesis using False by simp
  qed
  ultimately show ?thesis by simp
qed

lemma slice_1_2: "2 \<le> length xs \<Longrightarrow> slice 1 2 xs = [xs ! 1]"
  using slice_one [of 1 xs] by (simp add: numeral_2_eq_2)

lemma uint_byte_bounds: "0 \<le> uint (b :: byte)" "uint (b :: byte) < 256"
  using uint_lt2p [of b] by simp_all

lemma unpack_BE_h_pair:
  "unpack_BE_h [a, b] = Inr (sint (word_of_int (uint a * 256 + uint b) :: 16 word))"
proof -
  have "0 \<le> uint a * 256 + uint b" "uint a * 256 + uint b < 65536"
    using uint_byte_bounds [of a] uint_byte_bounds [of b] by simp_all
  from signed16_sint [OF this] show ?thesis
    by (simp add: unpack_BE_h_def be_uint_def Let_def)
qed

lemma unpack_BE_I_quad:
  "unpack_BE_I [a, b, c, e] = Inr (((uint a * 256 + uint b) * 256 + uint c) * 256 + uint e)"
  by (simp add: unpack_BE_I_def be_uint_def)

lemma index_at_in: "i < length d \<Longrightarrow> index_at d i = Inr (d ! i)"
  by (simp add: index_at_def)

lemma py_hex_0x20: "py_hex 32 = ''0x20''"
  by (simp add: py_hex_def digits16.simps hex_digit_def)

lemma py_hex_0x10: "py_hex 16 = ''0x10''"
  by (simp add: py_hex_def digits16.simps hex_digit_def)

lemma py_hex_0x00: "py_hex 0 = ''0x0''"
  by (simp add: py_hex_def digits16.simps hex_digit_def)

lemma parse_eddystone_body_TLM:
  assumes "d ! 0 = 0x20" "14 \<le> length d"
  shows "parse_eddystone_body d = Inr (Some
          [(''type'', PyStr ''Eddystone''),
           (''frame_type'', PyStr ''0x20''),
           (''raw_data'', PyStr (bytes_hex d)),
           (''frame_type_name'', PyStr ''TLM''),
           (''version'', PyInt (uint (d ! 1))),
           (''battery_voltage'', PyInt (uint (d ! 2) * 256 + uint (d ! 3))),
           (''temperature'',
              PyFloat (of_int (sint (word_of_int (uint (d ! 4) * 256 + uint (d ! 5)) :: 16 word)) / 256)),
           (''advertising_count'',
              PyInt (((uint (d ! 6) * 256 + uint (d ! 7)) * 256 + uint (d ! 8)) * 256 + uint (d ! 9))),
           (''seconds_since_boot'',
              PyInt (((uint (d ! 10) * 256 + uint (d ! 11)) * 256 + uint (d ! 12)) * 256 + uint (d ! 13)))])"
proof -
  have i0: "index_at d 0 = Inr 0x20" using assms by (auto simp add: index_at_def)
  have i1: "index_at d 1 = Inr (d ! 1)" using assms by (simp add: index_at_def)
  have a: "slice 2 4 d = [d ! 2, d ! 3]" using slice_two [of 2 d] assms by simp
  have b: "slice 4 6 d = [d ! 4, d ! 5]" using slice_two [of 4 d] assms by simp
  have c: "slice 6 10 d = [d ! 6, d ! 7, d ! 8, d ! 9]" using slice_four [of 6 d] assms by simp
  have e: "slice 10 14 d = [d ! 10, d ! 11, d ! 12, d ! 13]"
    using slice_four [of 10 d] assms by simp
  show ?thesis
    unfolding parse_eddystone_body_def i0 i1 a b c e
    by (simp add: unpack_BE_H_pair unpack_BE_h_pair unpack_BE_I_quad dict_update_def py_hex_0x20)
qed

lemma csv_parse_eddystone_body_TLM:
  assumes "d ! 0 = 0x20" "6 \<le> length d"
  shows "csv_parse_eddystone_body d = Inr (Some
          [(''beacon_type'', PyStr ''Eddystone''),
           (''frame_type'', PyStr ''TLM''),
           (''raw_data'', PyStr (bytes_hex d)),
           (''battery_voltage'', PyInt (uint (d ! 2) * 256 + uint (d ! 3))),
           (''temperature'',
              PyFloat (of_int (sint (word_of_int (uint (d ! 4) * 256 + uint (d ! 5)) :: 16 word)) / 256))])"
proof -
  have i0: "index_at d 0 = Inr 0x20" using assms by (auto simp add: index_at_def)
  have a: "slice 2 4 d = [d ! 2, d ! 3]" using slice_two [of 2 d] assms by simp
  have b: "slice 4 6 d = [d ! 4, d ! 5]" using slice_two [of 4 d] assms by simp
  show ?thesis
    unfolding csv_parse_eddystone_body_def i0 a b
    by (simp add: unpack_BE_H_pair unpack_BE_h_pair dict_update_def)
qed

lemma parse_eddystone_body_URL:
  assumes "d ! 0 = 0x10" "3 \<le> length d"
  shows "parse_eddystone_body d = Inr (Some
          [(''type'', PyStr ''Eddystone''),
           (''frame_type'', PyStr ''0x10''),
           (''raw_data'', PyStr (bytes_hex d)),
           (''frame_type_name'', PyStr ''URL''),
           (''tx_power'', PyInt (sint (d ! 1))),
           (''url_scheme'', PyInt (uint (d ! 2))),
           (''encoded_url'', PyStr (bytes_hex (drop 3 d)))])"
proof -
  have i0: "index_at d 0 = Inr 0x10" using assms by (auto simp add: index_at_def)
  have i2: "index_at d 2 = Inr (d ! 2)" using assms by (simp add: index_at_def)
  have a: "slice 1 2 d = [d ! 1]" using slice_1_2 [of d] assms by simp
  show ?thesis
    unfolding parse_eddystone_body_def i0 i2 a
    by (simp add: unpack_b_single dict_update_def py_hex_0x10)
qed

lemma parse_eddystone_URL_short:
  assumes "d \<noteq> []" "hd d = 0x10" "length d < 3"
  shows "parse_eddystone d = Inr None"
proof (cases "length d = 1")
  case True
  then have "slice 1 2 d = []" by (simp add: slice_def)
  moreover have "index_at d 0 = Inr 0x10" using assms by (simp add: index_at_def hd_conv_nth)
  ultimately show ?thesis
    by (simp add: parse_eddystone_def parse_eddystone_body_def unpack_b_def)
next
  case False
  moreover have "length d \<noteq> 0" using assms by simp
  ultimately have l: "length d = 2" using assms by linarith
  then have "slice 1 2 d = [d ! 1]" using slice_1_2 [of d] by simp
  moreover have "index_at d 0 = Inr 0x10" using assms by (simp add: index_at_def hd_conv_nth)
  moreover have "index_at d 2 = Inl IndexError" using l by (simp add: index_at_def)
  ultimately show ?thesis
    by (simp add: parse_eddystone_def parse_eddystone_body_def unpack_b_single)
qed

lemma csv_parse_eddystone_body_URL:
  assumes "d ! 0 = 0x10" "2 \<le> length d"
  shows "csv_parse_eddystone_body d = Inr (Some
          [(''beacon_type'', PyStr ''Eddystone''),
           (''frame_type'', PyStr ''URL''),
           (''raw_data'', PyStr (bytes_hex d)),
           (''tx_power'', PyInt (sint (d ! 1)))])"
proof -
  have i0: "index_at d 0 = Inr 0x10" using assms by (auto simp add: index_at_def)
  have a: "slice 1 2 d = [d ! 1]" using slice_1_2 [of d] assms by simp
  show ?thesis
    unfolding csv_parse_eddystone_body_def i0 a
    by (simp add: unpack_b_single dict_update_def)
qed

lemma csv_parse_eddystone_URL_short:
  assumes "d \<noteq> []" "hd d = 0x10" "length d < 2"
  shows "csv_parse_eddystone d = Inr None"
proof -
  have "length d \<noteq> 0" using assms by simp
  then have "length d = 1" using assms by linarith
  then have "slice 1 2 d = []" by (simp add: slice_def)
  moreover have "index_at d 0 = Inr 0x10" using assms by (simp add: index_at_def hd_conv_nth)
  ultimately show ?thesis
    by (simp add: csv_parse_eddystone_def csv_parse_eddystone_body_def unpack_b_def)
qed

lemma parse_eddystone_body_UID:
  assumes "d ! 0 = 0x00" "2 \<le> length d"
  shows "parse_eddystone_body d = Inr (Some
          [(''type'', PyStr ''Eddystone''),
           (''frame_type'', PyStr ''0x0''),
           (''raw_data'', PyStr (bytes_hex d)),
           (''frame_type_name'', PyStr ''UID''),
           (''tx_power'', PyInt (sint (d ! 1))),
           (''namespace'', PyStr (bytes_hex (slice 2 12 d))),
           (''instance'', PyStr (bytes_hex (slice 12 18 d)))])"
proof -
  have i0: "index_at d 0 = Inr 0x00" using assms by (auto simp add: index_at_def)
  have a: "slice 1 2 d = [d ! 1]" using slice_1_2 [of d] assms by simp
  show ?thesis
    unfolding parse_eddystone_body_def i0 a
    by (simp add: unpack_b_single dict_update_def py_hex_0x00)
qed

lemma csv_parse_eddystone_body_UID:
  assumes "d ! 0 = 0x00" "2 \<le> length d"
  shows "csv_parse_eddystone_body d = Inr (Some
          [(''beacon_type'', PyStr ''Eddystone''),
           (''frame_type'', PyStr ''UID''),
           (''raw_data'', PyStr (bytes_hex d)),
           (''tx_power'', PyInt (sint (d ! 1))),
           (''namespace'', PyStr (bytes_hex (slice 2 12 d))),
           (''instance'', PyStr (bytes_hex (slice 12 18 d)))])"
proof -
  have i0: "index_at d 0 = Inr 0x00" using assms by (auto simp add: index_at_def)
  have a: "slice 1 2 d = [d ! 1]" using slice_1_2 [of d] assms by simp
  show ?thesis
    unfolding csv_parse_eddystone_body_def i0 a
    by (simp add: unpack_b_single dict_update_def)
qed

lemmas parse_eddystone_TLM =
  parse_eddystone_body_TLM [THEN arg_cong [where f = except_Exception], folded parse_eddystone_def]

lemmas csv_parse_eddystone_TLM =
  csv_parse_eddystone_body_TLM [THEN arg_cong [where f = except_Exception], folded csv_parse_eddystone_def]

lemmas parse_eddystone_URL =
  parse_eddystone_body_URL [THEN arg_cong [where f = except_Exception], folded parse_eddystone_def]

lemmas csv_parse_eddystone_URL =
  csv_parse_eddystone_body_URL [THEN arg_cong [where f = except_Exception], folded csv_parse_eddystone_def]

lemmas parse_eddystone_UID =
  parse_eddystone_body_UID [THEN arg_cong [where f = except_Exception], folded parse_eddystone_def]

lemmas csv_parse_eddystone_UID =
  csv_parse_eddystone_body_UID [THEN arg_cong [where f = except_Exception], folded csv_parse_eddystone_def]

subsection \<open>Telemetry frames\<close>

lemma TLM_example_shape: "TLM_example ! 0 = 0x20" "14 \<le> length TLM_example" "6 \<le> length TLM_example"
  by (simp_all add: TLM_example_def)

lemma TLM_example_decoded:
  "parse_eddystone TLM_example = Inr (Some
     [(''type'', PyStr ''Eddystone''),
      (''frame_type'', PyStr ''0x20''),
      (''raw_data'', PyStr ''20000be40c980000000500000578''),
      (''frame_type_name'', PyStr ''TLM''),
      (''version'', PyInt 0),
      (''battery_voltage'', PyInt 3044),
      (''temperature'', PyFloat 12.59375),
      (''advertising_count'', PyInt 5),
      (''seconds_since_boot'', PyInt 1400)])"
  unfolding parse_eddystone_TLM [OF TLM_example_shape(1,2)]
  by (simp add: TLM_example_def bytes_hex_def byte_hex_def hex_digit_def)

lemma csv_TLM_example_decoded:
  "csv_parse_eddystone TLM_example = Inr (Some
     [(''beacon_type'', PyStr ''Eddystone''),
      (''frame_type'', PyStr ''TLM''),
      (''raw_data'', PyStr ''20000be40c980000000500000578''),
      (''battery_voltage'', PyInt 3044),
      (''temperature'', PyFloat 12.59375)])"
  unfolding csv_parse_eddystone_TLM [OF TLM_example_shape(1,3)]
  by (simp add: TLM_example_def bytes_hex_def byte_hex_def hex_digit_def)

text \<open>
  Claim C4, as amended. On every buffer that starts with 0x20 and has at least 14 bytes,
  \<^verbatim>\<open>parse_eddystone\<close> of \<^verbatim>\<open>ble_scanner.py\<close> returns a dictionary with \<^verbatim>\<open>version\<close> the byte
  at offset 1, \<^verbatim>\<open>battery_voltage\<close> the unsigned big-endian 16-bit integer at offset 2,
  \<^verbatim>\<open>temperature\<close> the signed big-endian 16-bit integer at offset 4 divided by 256,
  and \<^verbatim>\<open>advertising_count\<close> and \<^verbatim>\<open>seconds_since_boot\<close> the unsigned big-endian 32-bit
  integers at offsets 6 and 10; the buffer 20 00 0BE4 0C98 00000005 00000578 decodes to
  0, 3044, 12.59375, 5 and 1400. The parser of \<^verbatim>\<open>ble_scanner_to_csv.py\<close> returns on the
  same buffers a dictionary with frame type \<^verbatim>\<open>TLM\<close> and the same \<^verbatim>\<open>battery_voltage\<close>
  and \<^verbatim>\<open>temperature\<close>, and with no version and no counter.
\<close>

theorem C4_TLM_fields:
  "(hd d = 0x20 \<and> 14 \<le> length d \<longrightarrow>
      result_get ''version'' (parse_eddystone d) = Some (PyInt (uint (d ! 1))) \<and>
      result_get ''battery_voltage'' (parse_eddystone d)
        = Some (PyInt (uint (d ! 2) * 256 + uint (d ! 3))) \<and>
      result_get ''temperature'' (parse_eddystone d)
        = Some (PyFloat (of_int (sint (word_of_int (uint (d ! 4) * 256 + uint (d ! 5)) :: 16 word)) / 256)) \<and>
      result_get ''advertising_count'' (parse_eddystone d)
        = Some (PyInt (((uint (d ! 6) * 256 + uint (d ! 7)) * 256 + uint (d ! 8)) * 256 + uint (d ! 9))) \<and>
      result_get ''seconds_since_boot'' (parse_eddystone d)
        = Some (PyInt (((uint (d ! 10) * 256 + uint (d ! 11)) * 256 + uint (d ! 12)) * 256 + uint (d ! 13))) \<and>
      result_get ''frame_type'' (csv_parse_eddystone d) = Some (PyStr ''TLM'') \<and>
      result_get ''battery_voltage'' (csv_parse_eddystone d)
        = Some (PyInt (uint (d ! 2) * 256 + uint (d ! 3))) \<and>
      result_get ''temperature'' (csv_parse_eddystone d)
        = Some (PyFloat (of_int (sint (word_of_int (uint (d ! 4) * 256 + uint (d ! 5)) :: 16 word)) / 256)) \<and>
      result_get ''version'' (csv_parse_eddystone d) = None \<and>
      result_get ''advertising_count'' (csv_parse_eddystone d) = None \<and>
      result_get ''seconds_since_boot'' (csv_parse_eddystone d) = None)
   \<and> result_get ''version'' (parse_eddystone TLM_example) = Some (PyInt 0)
   \<and> result_get ''battery_voltage'' (parse_eddystone TLM_example) = Some (PyInt 3044)
   \<and> result_get ''temperature'' (parse_eddystone TLM_example) = Some (PyFloat 12.59375)
   \<and> result_get ''advertising_count'' (parse_eddystone TLM_example) = Some (PyInt 5)
   \<and> result_get ''seconds_since_boot'' (parse_eddystone TLM_example) = Some (PyInt 1400)"
  (is "(?H \<longrightarrow> ?G) \<and> ?E")
proof (rule conjI, rule impI)
  assume h: ?H
  then have z: "d ! 0 = 0x20" by (cases d) simp_all
  have six: "6 \<le> length d" using h by simp
  have len: "14 \<le> length d" using h by simp
  show ?G
    unfolding parse_eddystone_TLM [OF z len] csv_parse_eddystone_TLM [OF z six]
    by simp
next
  show ?E unfolding TLM_example_decoded by simp
qed

text \<open>
The theorem at a buffer of 15 bytes whose temperature field is 0xFF80.
\<close>

theorem C4_TLM_witness:
  "hd TLM_cold = 0x20 \<and> 14 \<le> length TLM_cold \<and>
   result_get ''version'' (parse_eddystone TLM_cold) = Some (PyInt 1) \<and>
   result_get ''battery_voltage'' (parse_eddystone TLM_cold) = Some (PyInt 3100) \<and>
   result_get ''temperature'' (parse_eddystone TLM_cold) = Some (PyFloat (- 0.5)) \<and>
   result_get ''advertising_count'' (parse_eddystone TLM_cold) = Some (PyInt 256) \<and>
   result_get ''seconds_since_boot'' (parse_eddystone TLM_cold) = Some (PyInt 65536) \<and>
   result_get ''battery_voltage'' (csv_parse_eddystone TLM_cold) = Some (PyInt 3100) \<and>
   result_get ''temperature'' (csv_parse_eddystone TLM_cold) = Some (PyFloat (- 0.5)) \<and>
   result_get ''version'' (csv_parse_eddystone TLM_cold) = None"
proof -
  have h: "hd TLM_cold = 0x20 \<and> 14 \<le> length TLM_cold" by (simp add: TLM_cold_def)
  have nths: "TLM_cold ! 1 = 1" "TLM_cold ! 2 = 0x0C" "TLM_cold ! 3 = 0x1C" "TLM_cold ! 4 = 0xFF"
    "TLM_cold ! 5 = 0x80" "TLM_cold ! 6 = 0" "TLM_cold ! 7 = 0" "TLM_cold ! 8 = 1" "TLM_cold ! 9 = 0"
    "TLM_cold ! 10 = 0" "TLM_cold ! 11 = 1" "TLM_cold ! 12 = 0" "TLM_cold ! 13 = 0"
    by (simp_all add: TLM_cold_def)
  show ?thesis
    using C4_TLM_fields [of TLM_cold] h unfolding nths by simp
qed

text \<open>
  Claim C4 as stated fails for \<^verbatim>\<open>ble_scanner_to_csv.py\<close>: on the telemetry buffer of the
  claim its parser returns a dictionary without \<^verbatim>\<open>version\<close>, \<^verbatim>\<open>advertising_count\<close> and
  \<^verbatim>\<open>seconds_since_boot\<close>.
\<close>

theorem C4_csv_TLM_counterexample:
  "hd TLM_example = 0x20 \<and> 14 \<le> length TLM_example \<and>
   result_get ''battery_voltage'' (csv_parse_eddystone TLM_example) = Some (PyInt 3044) \<and>
   result_get ''version'' (csv_parse_eddystone TLM_example) = None \<and>
   result_get ''advertising_count'' (csv_parse_eddystone TLM_example) = None \<and>
   result_get ''seconds_since_boot'' (csv_parse_eddystone TLM_example) = None"
  unfolding csv_TLM_example_decoded by (simp add: TLM_example_def)

subsection \<open>URL frames\<close>

text \<open>
  Claim C5, as amended. On a buffer that starts with 0x10, \<^verbatim>\<open>parse_eddystone\<close> of
  \<^verbatim>\<open>ble_scanner.py\<close> returns, when there are at least 3 bytes, a dictionary with
  \<^verbatim>\<open>tx_power\<close> the signed byte at offset 1, \<^verbatim>\<open>url_scheme\<close> the byte at offset 2 and
  \<^verbatim>\<open>encoded_url\<close> the hexadecimal text of the bytes from offset 3 on, and returns
  \<^verbatim>\<open>None\<close> when there are fewer than 3 bytes. The parser of \<^verbatim>\<open>ble_scanner_to_csv.py\<close>
  reads only the power byte: with at least 2 bytes it returns a dictionary with frame
  type \<^verbatim>\<open>URL\<close> and \<^verbatim>\<open>tx_power\<close>, without \<^verbatim>\<open>url_scheme\<close> and \<^verbatim>\<open>encoded_url\<close>, and it
  returns \<^verbatim>\<open>None\<close> only on the 1-byte buffer.
\<close>

theorem C5_URL_fields:
  "(d \<noteq> [] \<and> hd d = 0x10 \<and> 3 \<le> length d \<longrightarrow>
      result_get ''tx_power'' (parse_eddystone d) = Some (PyInt (sint (d ! 1))) \<and>
      result_get ''url_scheme'' (parse_eddystone d) = Some (PyInt (uint (d ! 2))) \<and>
      result_get ''encoded_url'' (parse_eddystone d) = Some (PyStr (bytes_hex (drop 3 d)))) \<and>
   (d \<noteq> [] \<and> hd d = 0x10 \<and> length d < 3 \<longrightarrow> parse_eddystone d = Inr None) \<and>
   (d \<noteq> [] \<and> hd d = 0x10 \<and> 2 \<le> length d \<longrightarrow>
      result_get ''frame_type'' (csv_parse_eddystone d) = Some (PyStr ''URL'') \<and>
      result_get ''tx_power'' (csv_parse_eddystone d) = Some (PyInt (sint (d ! 1))) \<and>
      result_get ''url_scheme'' (csv_parse_eddystone d) = None \<and>
      result_get ''encoded_url'' (csv_parse_eddystone d) = None) \<and>
   (d \<noteq> [] \<and> hd d = 0x10 \<and> length d < 2 \<longrightarrow> csv_parse_eddystone d = Inr None)"
  (is "(?H3 \<longrightarrow> ?G3) \<and> (?S3 \<longrightarrow> ?N3) \<and> (?H2 \<longrightarrow> ?G2) \<and> (?S2 \<longrightarrow> ?N2)")
proof (intro conjI)
  show "?H3 \<longrightarrow> ?G3"
  proof
    assume h: ?H3
    then have z: "d ! 0 = 0x10" by (cases d) simp_all
    have len: "3 \<le> length d" using h by simp
    show ?G3 unfolding parse_eddystone_URL [OF z len] by simp
  qed
  show "?S3 \<longrightarrow> ?N3" by (simp add: parse_eddystone_URL_short)
  show "?H2 \<longrightarrow> ?G2"
  proof
    assume h: ?H2
    then have z: "d ! 0 = 0x10" by (cases d) simp_all
    have len: "2 \<le> length d" using h by simp
    show ?G2 unfolding csv_parse_eddystone_URL [OF z len] by simp
  qed
  show "?S2 \<longrightarrow> ?N2" by (simp add: csv_parse_eddystone_URL_short)
qed

text \<open>
The theorem at buffers of 5 bytes, 2 bytes and 1 byte.
\<close>

theorem C5_URL_witness:
  "result_get ''tx_power'' (parse_eddystone URL_example) = Some (PyInt (- 18)) \<and>
   result_get ''url_scheme'' (parse_eddystone URL_example) = Some (PyInt 7) \<and>
   result_get ''encoded_url'' (parse_eddystone URL_example) = Some (PyStr ''6162'') \<and>
   parse_eddystone [0x10, 0xEE] = Inr None \<and>
   result_get ''frame_type'' (csv_parse_eddystone [0x10, 0xEE]) = Some (PyStr ''URL'') \<and>
   result_get ''tx_power'' (csv_parse_eddystone [0x10, 0xEE]) = Some (PyInt (- 18)) \<and>
   result_get ''url_scheme'' (csv_parse_eddystone URL_example) = None \<and>
   csv_parse_eddystone [0x10] = Inr None"
proof -
  have a: "URL_example \<noteq> [] \<and> hd URL_example = 0x10 \<and> 3 \<le> length URL_example"
    "URL_example \<noteq> [] \<and> hd URL_example = 0x10 \<and> 2 \<le> length URL_example"
    by (simp_all add: URL_example_def)
  have nths: "URL_example ! 1 = 0xEE" "URL_example ! 2 = 0x07" "drop 3 URL_example = [0x61, 0x62]"
    by (simp_all add: URL_example_def)
  have hx: "bytes_hex [0x61, 0x62] = ''6162''"
    by (simp add: bytes_hex_def byte_hex_def hex_digit_def)
  show ?thesis
    using C5_URL_fields [of URL_example] C5_URL_fields [of "[0x10, 0xEE]"]
      C5_URL_fields [of "[0x10]"] a
    unfolding nths hx by simp
qed

text \<open>
  Claim C5 as stated fails for \<^verbatim>\<open>ble_scanner_to_csv.py\<close>: on a 5-byte URL frame its parser
  returns no \<^verbatim>\<open>url_scheme\<close> and no \<^verbatim>\<open>encoded_url\<close>, and on a 2-byte URL frame it
  returns a dictionary with \<^verbatim>\<open>tx_power\<close>.
\<close>

theorem C5_csv_URL_counterexample:
  "hd URL_example = 0x10 \<and> 3 \<le> length URL_example \<and>
   result_get ''tx_power'' (csv_parse_eddystone URL_example) = Some (PyInt (- 18)) \<and>
   result_get ''url_scheme'' (csv_parse_eddystone URL_example) = None \<and>
   result_get ''encoded_url'' (csv_parse_eddystone URL_example) = None \<and>
   csv_parse_eddystone [0x10, 0xEE] = Inr (Some
     [(''beacon_type'', PyStr ''Eddystone''), (''frame_type'', PyStr ''URL''),
      (''raw_data'', PyStr ''10ee''), (''tx_power'', PyInt (- 18))])"
proof -
  have z: "URL_example ! 0 = 0x10" "2 \<le> length URL_example" by (simp_all add: URL_example_def)
  have y: "[0x10, 0xEE :: byte] ! 0 = 0x10" "2 \<le> length [0x10, 0xEE :: byte]" by simp_all
  show ?thesis
    unfolding csv_parse_eddystone_URL [OF z] csv_parse_eddystone_URL [OF y]
    by (simp add: URL_example_def bytes_hex_def byte_hex_def hex_digit_def)
qed

lemma url_scheme_surfaced:
  "result_get ''url_scheme'' (parse_eddystone (0x10 # t # s # r)) = Some (PyInt (uint s))"
proof -
  have z: "(0x10 # t # s # r) ! 0 = 0x10" "3 \<le> length (0x10 # t # s # r)" by simp_all
  show ?thesis unfolding parse_eddystone_URL [OF z] by simp
qed

text \<open>
  Claim C9. On every buffer that starts with 0x10 and has at least 3 bytes, whatever the
  byte at offset 2, \<^verbatim>\<open>parse_eddystone\<close> of \<^verbatim>\<open>ble_scanner.py\<close> returns a dictionary whose
  \<^verbatim>\<open>url_scheme\<close> is that byte as an integer: the values 4 and 255, which index no
  scheme prefix, come back as 4 and 255.
\<close>

theorem C9_url_scheme_unvalidated:
  "result_get ''url_scheme'' (parse_eddystone (0x10 # tx # scheme # rest)) = Some (PyInt (uint scheme)) \<and>
   result_get ''url_scheme'' (parse_eddystone [0x10, 0xEE, 0x04]) = Some (PyInt 4) \<and>
   result_get ''url_scheme'' (parse_eddystone [0x10, 0xEE, 0xFF, 0x61]) = Some (PyInt 255)"
  by (simp add: url_scheme_surfaced)

subsection \<open>UID frames\<close>

text \<open>
  Claim C3 at a UID frame of 17 bytes. Both scripts return a dictionary with the frame
  type, \<^verbatim>\<open>tx_power\<close>, a full \<^verbatim>\<open>namespace\<close> and an \<^verbatim>\<open>instance\<close> of 5 bytes instead of 6:
  the slices of the UID branch are cut at the end of the buffer and raise nothing.
  The telemetry and URL branches of the same parser return \<^verbatim>\<open>None\<close> on a frame one
  byte short.
\<close>

theorem C3_UID_17_bytes_decoded:
  "length UID_17_bytes = 17 \<and> hd UID_17_bytes = 0x00 \<and>
   parse_eddystone UID_17_bytes = Inr (Some
     [(''type'', PyStr ''Eddystone''),
      (''frame_type'', PyStr ''0x0''),
      (''raw_data'', PyStr ''00ee0102030405060708090a0b0c0d0e0f''),
      (''frame_type_name'', PyStr ''UID''),
      (''tx_power'', PyInt (- 18)),
      (''namespace'', PyStr ''0102030405060708090a''),
      (''instance'', PyStr ''0b0c0d0e0f'')]) \<and>
   csv_parse_eddystone UID_17_bytes = Inr (Some
     [(''beacon_type'', PyStr ''Eddystone''),
      (''frame_type'', PyStr ''UID''),
      (''raw_data'', PyStr ''00ee0102030405060708090a0b0c0d0e0f''),
      (''tx_power'', PyInt (- 18)),
      (''namespace'', PyStr ''0102030405060708090a''),
      (''instance'', PyStr ''0b0c0d0e0f'')]) \<and>
   parse_eddystone (take 13 TLM_example) = Inr None \<and>
   parse_eddystone (take 2 URL_example) = Inr None"
proof -
  have z: "UID_17_bytes ! 0 = 0x00" "2 \<le> length UID_17_bytes" by (simp_all add: UID_17_bytes_def)
  have "parse_eddystone (take 13 TLM_example) = Inr None"
    by (simp add: TLM_example_def parse_eddystone_def parse_eddystone_body_def index_at_def
        slice_def unpack_BE_H_def unpack_BE_h_def unpack_BE_I_def be_uint_def)
  moreover have "parse_eddystone (take 2 URL_example) = Inr None"
    by (simp add: URL_example_def parse_eddystone_URL_short)
  ultimately show ?thesis
    unfolding parse_eddystone_UID [OF z] csv_parse_eddystone_UID [OF z]
    by (simp add: UID_17_bytes_def slice_def bytes_hex_def byte_hex_def hex_digit_def)
qed

subsection \<open>Bytes past the fixed prefix\<close>

lemma iBeacon_example_shape:
  "23 \<le> length iBeacon_example" "take 16 (drop 2 iBeacon_example) = known_good_uuid"
  "iBeacon_example ! 18 = 0" "iBeacon_example ! 19 = 1" "iBeacon_example ! 20 = 0"
  "iBeacon_example ! 21 = 2" "iBeacon_example ! 22 = 0xC5"
  by (simp_all add: iBeacon_example_def known_good_uuid_def)

lemma iBeacon_example_decoded:
  "parse_ibeacon iBeacon_example = Inr (Some
     [(''type'', PyStr ''iBeacon''),
      (''uuid'', PyStr ''e2c56db5-dffb-48d2-b060-d0f5a71096e0''),
      (''major'', PyInt 1), (''minor'', PyInt 2), (''tx_power'', PyInt (- 59)),
      (''raw_data'', PyStr (bytes_hex iBeacon_example))])"
  unfolding parse_ibeacon_long [OF iBeacon_example_shape(1)] iBeacon_example_shape(2-7)
    hex_known_good_uuid
  by simp

lemma csv_iBeacon_example_decoded:
  "csv_parse_ibeacon iBeacon_example = Inr (Some
     [(''beacon_type'', PyStr ''iBeacon''),
      (''uuid'', PyStr ''e2c56db5-dffb-48d2-b060-d0f5a71096e0''),
      (''major'', PyInt 1), (''minor'', PyInt 2), (''tx_power'', PyInt (- 59)),
      (''raw_data'', PyStr (bytes_hex iBeacon_example))])"
  unfolding csv_parse_ibeacon_long [OF iBeacon_example_shape(1)] iBeacon_example_shape(2-7)
    hex_known_good_uuid
  by simp

lemma take_eq_nth: "take n xs = take n ys \<Longrightarrow> i < n \<Longrightarrow> xs ! i = ys ! i"
  by (metis nth_take)

lemma take_eq_inner:
  assumes "take n xs = take n ys" "i + m \<le> n"
  shows "take m (drop i xs) = take m (drop i ys)"
proof -
  have "take m (drop i xs) = take m (drop i (take n xs))" using assms(2) by (simp add: drop_take)
  also have "\<dots> = take m (drop i (take n ys))" using assms(1) by simp
  also have "\<dots> = take m (drop i ys)" using assms(2) by (simp add: drop_take)
  finally show ?thesis .
qed

lemma parse_ibeacon_prefix:
  assumes "23 \<le> length d1" "23 \<le> length d2" "take 23 d1 = take 23 d2" "k \<noteq> ''raw_data''"
  shows "result_get k (parse_ibeacon d1) = result_get k (parse_ibeacon d2)"
proof -
  have u: "take 16 (drop 2 d1) = take 16 (drop 2 d2)"
    using take_eq_inner [OF assms(3), of 2 16] by simp
  have n: "d1 ! 18 = d2 ! 18" "d1 ! 19 = d2 ! 19" "d1 ! 20 = d2 ! 20" "d1 ! 21 = d2 ! 21"
    "d1 ! 22 = d2 ! 22"
    using take_eq_nth [OF assms(3)] by simp_all
  show ?thesis
    unfolding parse_ibeacon_long [OF assms(1)] parse_ibeacon_long [OF assms(2)] u n
    using assms(4) by simp
qed

lemma parse_eddystone_TLM_prefix:
  assumes "hd d1 = 0x20" "hd d2 = 0x20" "14 \<le> length d1" "14 \<le> length d2"
    "take 14 d1 = take 14 d2" "k \<noteq> ''raw_data''"
  shows "result_get k (parse_eddystone d1) = result_get k (parse_eddystone d2)"
proof -
  have z1: "d1 ! 0 = 0x20" using assms(1,3) by (cases d1) simp_all
  have z2: "d2 ! 0 = 0x20" using assms(2,4) by (cases d2) simp_all
  have n: "d1 ! 1 = d2 ! 1" "d1 ! 2 = d2 ! 2" "d1 ! 3 = d2 ! 3" "d1 ! 4 = d2 ! 4"
    "d1 ! 5 = d2 ! 5" "d1 ! 6 = d2 ! 6" "d1 ! 7 = d2 ! 7" "d1 ! 8 = d2 ! 8" "d1 ! 9 = d2 ! 9"
    "d1 ! 10 = d2 ! 10" "d1 ! 11 = d2 ! 11" "d1 ! 12 = d2 ! 12" "d1 ! 13 = d2 ! 13"
    using take_eq_nth [OF assms(5)] by simp_all
  show ?thesis
    unfolding parse_eddystone_TLM [OF z1 assms(3)] parse_eddystone_TLM [OF z2 assms(4)] n
    using assms(6) by simp
qed

text \<open>
  Claim C10. Two buffers of at least 23 bytes that agree on their first 23 bytes give
  iBeacon dictionaries that agree on every key but \<^verbatim>\<open>raw_data\<close>; two telemetry buffers
  (first byte 0x20) of at least 14 bytes that agree on their first 14 bytes give
  Eddystone dictionaries that agree on every key but \<^verbatim>\<open>raw_data\<close>. The parsers are
  those of \<^verbatim>\<open>ble_scanner.py\<close>.
\<close>

theorem C10_trailing_bytes_irrelevant:
  "(23 \<le> length d1 \<and> 23 \<le> length d2 \<and> take 23 d1 = take 23 d2 \<and> k \<noteq> ''raw_data'' \<longrightarrow>
      result_get k (parse_ibeacon d1) = result_get k (parse_ibeacon d2)) \<and>
   (hd e1 = 0x20 \<and> hd e2 = 0x20 \<and> 14 \<le> length e1 \<and> 14 \<le> length e2 \<and>
    take 14 e1 = take 14 e2 \<and> k \<noteq> ''raw_data'' \<longrightarrow>
      result_get k (parse_eddystone e1) = result_get k (parse_eddystone e2))"
  using parse_ibeacon_prefix [of d1 d2 k] parse_eddystone_TLM_prefix [of e1 e2 k] by blast

text \<open>
  The theorem at the known-good iBeacon buffer with two more bytes, and at the
  telemetry buffer with one more byte.
\<close>

theorem C10_trailing_bytes_witness:
  "take 23 iBeacon_example = take 23 (iBeacon_example @ [0xAA, 0xBB]) \<and>
   result_get ''uuid'' (parse_ibeacon (iBeacon_example @ [0xAA, 0xBB]))
     = Some (PyStr ''e2c56db5-dffb-48d2-b060-d0f5a71096e0'') \<and>
   result_get ''tx_power'' (parse_ibeacon (iBeacon_example @ [0xAA, 0xBB])) = Some (PyInt (- 59)) \<and>
   take 14 TLM_example = take 14 (TLM_example @ [0x01]) \<and>
   result_get ''temperature'' (parse_eddystone (TLM_example @ [0x01])) = Some (PyFloat 12.59375) \<and>
   result_get ''seconds_since_boot'' (parse_eddystone (TLM_example @ [0x01])) = Some (PyInt 1400)"
proof -
  have a: "23 \<le> length iBeacon_example" "23 \<le> length (iBeacon_example @ [0xAA, 0xBB])"
    "take 23 iBeacon_example = take 23 (iBeacon_example @ [0xAA, 0xBB])"
    by (simp_all add: iBeacon_example_def known_good_uuid_def)
  have b: "hd TLM_example = 0x20" "hd (TLM_example @ [0x01]) = 0x20" "14 \<le> length TLM_example"
    "14 \<le> length (TLM_example @ [0x01])" "take 14 TLM_example = take 14 (TLM_example @ [0x01])"
    by (simp_all add: TLM_example_def)
  have i: "result_get ''uuid'' (parse_ibeacon iBeacon_example)
             = Some (PyStr ''e2c56db5-dffb-48d2-b060-d0f5a71096e0'')"
    "result_get ''tx_power'' (parse_ibeacon iBeacon_example) = Some (PyInt (- 59))"
    unfolding iBeacon_example_decoded by simp_all
  have t: "result_get ''temperature'' (parse_eddystone TLM_example) = Some (PyFloat 12.59375)"
    "result_get ''seconds_since_boot'' (parse_eddystone TLM_example) = Some (PyInt 1400)"
    unfolding TLM_example_decoded by simp_all
  have hu: "23 \<le> length iBeacon_example \<and> 23 \<le> length (iBeacon_example @ [0xAA, 0xBB]) \<and>
      take 23 iBeacon_example = take 23 (iBeacon_example @ [0xAA, 0xBB]) \<and> ''uuid'' \<noteq> ''raw_data''"
    using a by simp
  have hp: "23 \<le> length iBeacon_example \<and> 23 \<le> length (iBeacon_example @ [0xAA, 0xBB]) \<and>
      take 23 iBeacon_example = take 23 (iBeacon_example @ [0xAA, 0xBB]) \<and> ''tx_power'' \<noteq> ''raw_data''"
    using a by simp
  have ht: "hd TLM_example = 0x20 \<and> hd (TLM_example @ [0x01]) = 0x20 \<and> 14 \<le> length TLM_example \<and>
      14 \<le> length (TLM_example @ [0x01]) \<and> take 14 TLM_example = take 14 (TLM_example @ [0x01]) \<and>
      ''temperature'' \<noteq> ''raw_data''"
    using b by simp
  have hs: "hd TLM_example = 0x20 \<and> hd (TLM_example @ [0x01]) = 0x20 \<and> 14 \<le> length TLM_example \<and>
      14 \<le> length (TLM_example @ [0x01]) \<and> take 14 TLM_example = take 14 (TLM_example @ [0x01]) \<and>
      ''seconds_since_boot'' \<noteq> ''raw_data''"
    using b by simp
  note u = C10_trailing_bytes_irrelevant
    [of iBeacon_example "iBeacon_example @ [0xAA, 0xBB]" "''uuid''" TLM_example TLM_example,
     THEN conjunct1, THEN mp, OF hu]
  note p = C10_trailing_bytes_irrelevant
    [of iBeacon_example "iBeacon_example @ [0xAA, 0xBB]" "''tx_power''" TLM_example TLM_example,
     THEN conjunct1, THEN mp, OF hp]
  note tt = C10_trailing_bytes_irrelevant
    [of iBeacon_example iBeacon_example "''temperature''" TLM_example "TLM_example @ [0x01]",
     THEN conjunct2, THEN mp, OF ht]
  note ss = C10_trailing_bytes_irrelevant
    [of iBeacon_example iBeacon_example "''seconds_since_boot''" TLM_example "TLM_example @ [0x01]",
     THEN conjunct2, THEN mp, OF hs]
  show ?thesis
    unfolding u [symmetric] p [symmetric] tt [symmetric] ss [symmetric] i t
    using a(3) b(5) by simp
qed

subsection \<open>No exception leaves a parser\<close>

lemma except_Exception_returns: "\<exists>r. except_Exception x = Inr r"
  by (cases x rule: except_Exception.cases) simp_all

text \<open>
  Claim C7. On every byte sequence each parser of either script returns: its outcome
  is \<open>Inr r\<close>, with \<open>r\<close> a dictionary or \<^verbatim>\<open>None\<close>, and never \<open>Inl e\<close>. The functions are
  total and not recursive, so every call ends. On the empty sequence the outcome is
  \<^verbatim>\<open>None\<close>; where the body of the Eddystone parser raises (indexing an empty buffer,
  indexing a telemetry frame past its end, unpacking a missing power byte), the
  \<^verbatim>\<open>except\<close> clause turns the exception into \<^verbatim>\<open>None\<close>.
\<close>

theorem C7_parsers_never_raise:
  "(\<exists>r. parse_ibeacon d = Inr r) \<and> (\<exists>r. parse_eddystone d = Inr r) \<and>
   (\<exists>r. csv_parse_ibeacon d = Inr r) \<and> (\<exists>r. csv_parse_eddystone d = Inr r) \<and>
   parse_ibeacon [] = Inr None \<and> csv_parse_ibeacon [] = Inr None \<and>
   parse_eddystone_body [] = Inl IndexError \<and> parse_eddystone [] = Inr None \<and>
   csv_parse_eddystone_body [] = Inl IndexError \<and> csv_parse_eddystone [] = Inr None \<and>
   parse_eddystone_body [0x20] = Inl IndexError \<and> parse_eddystone [0x20] = Inr None \<and>
   parse_eddystone_body [0x00] = Inl StructError \<and> parse_eddystone [0x00] = Inr None"
proof -
  have "parse_eddystone_body [] = Inl IndexError" "csv_parse_eddystone_body [] = Inl IndexError"
    "parse_eddystone_body [0x20] = Inl IndexError" "parse_eddystone_body [0x00] = Inl StructError"
    by (simp_all add: parse_eddystone_body_def csv_parse_eddystone_body_def index_at_def
        slice_def unpack_b_def)
  moreover have "parse_ibeacon [] = Inr None" "csv_parse_ibeacon [] = Inr None"
    by (simp_all add: parse_ibeacon_def parse_ibeacon_body_def csv_parse_ibeacon_def
        csv_parse_ibeacon_body_def)
  ultimately show ?thesis
    by (simp add: parse_ibeacon_def parse_eddystone_def csv_parse_ibeacon_def
        csv_parse_eddystone_def except_Exception_returns)
qed

subsection \<open>Hexadecimal text decodes to the bytes it was made from\<close>

lemma below_16_cases:
  "m < 16 \<Longrightarrow> m \<in> {0, 1, 2, 3, 4, 5, 6, 7, 8, 9, 10, 11, 12, 13, 14, 15 :: nat}"
  by (simp add: eval_nat_numeral less_Suc_eq)

lemma hex_value_hex_digit:
  assumes "m < 16"
  shows "hex_value (hex_digit m) = Some m"
  using below_16_cases [OF assms]
  by (elim insertE emptyE) (simp_all add: hex_digit_def hex_value_def)

lemma hex_digit_lowercase: "hex_digit m \<in> set ''0123456789abcdef''"
  unfolding hex_digit_def by (rule nth_mem) simp

lemma byte_hex_lowercase:
  assumes "c \<in> set (byte_hex b)"
  shows "c \<in> set ''0123456789abcdef''"
proof -
  from assms have "c = hex_digit (unat b div 16) \<or> c = hex_digit (unat b mod 16)"
    by (simp add: byte_hex_def)
  then show ?thesis using hex_digit_lowercase by blast
qed

lemma bytes_hex_lowercase: "set (bytes_hex d) \<subseteq> set ''0123456789abcdef''"
proof
  fix c
  assume "c \<in> set (bytes_hex d)"
  then obtain b where "c \<in> set (byte_hex b)"
    unfolding bytes_hex_def by (simp only: set_concat set_map) blast
  then show "c \<in> set ''0123456789abcdef''" by (rule byte_hex_lowercase)
qed

lemma bytes_hex_Cons:
  "bytes_hex (b # bs) = hex_digit (unat b div 16) # hex_digit (unat b mod 16) # bytes_hex bs"
  by (simp add: bytes_hex_def byte_hex_def)

lemma byte_from_nibbles: "(of_nat (16 * (unat b div 16) + unat b mod 16) :: byte) = b"
  by simp

lemma bytes_fromhex_bytes_hex: "bytes_fromhex (bytes_hex d) = Some d"
proof (induction d)
  case Nil
  then show ?case by (simp add: bytes_hex_def)
next
  case (Cons b bs)
  have hi: "unat b div 16 < 16" using unsigned_less [of b, where ?'a = nat] by simp
  have lo: "unat b mod 16 < 16" by simp
  show ?case
    unfolding bytes_hex_Cons bytes_fromhex.simps hex_value_hex_digit [OF hi]
      hex_value_hex_digit [OF lo] Cons.IH
    by (simp add: byte_from_nibbles)
qed

lemma try_bind_Inr_iff: "try_bind m f = Inr y \<longleftrightarrow> (\<exists>x. m = Inr x \<and> f x = Inr y)"
  by (cases m) simp_all

lemma except_Exception_Some_iff: "except_Exception x = Inr (Some r) \<longleftrightarrow> x = Inr (Some r)"
  by (cases x rule: except_Exception.cases) simp_all

lemma parse_ibeacon_raw_data:
  "parse_ibeacon d = Inr (Some r) \<Longrightarrow> map_of r ''raw_data'' = Some (PyStr (bytes_hex d))"
  by (auto simp add: parse_ibeacon_def except_Exception_Some_iff parse_ibeacon_body_def
      try_bind_Inr_iff Let_def split: if_splits)

lemma csv_parse_ibeacon_raw_data:
  "csv_parse_ibeacon d = Inr (Some r) \<Longrightarrow> map_of r ''raw_data'' = Some (PyStr (bytes_hex d))"
  by (auto simp add: csv_parse_ibeacon_def except_Exception_Some_iff csv_parse_ibeacon_body_def
      try_bind_Inr_iff Let_def split: if_splits)

lemma parse_eddystone_raw_data:
  "parse_eddystone d = Inr (Some r) \<Longrightarrow> map_of r ''raw_data'' = Some (PyStr (bytes_hex d))"
  by (auto simp add: parse_eddystone_def except_Exception_Some_iff parse_eddystone_body_def
      try_bind_Inr_iff Let_def dict_update_def split: if_splits)

lemma csv_parse_eddystone_raw_data:
  "csv_parse_eddystone d = Inr (Some r) \<Longrightarrow> map_of r ''raw_data'' = Some (PyStr (bytes_hex d))"
  by (auto simp add: csv_parse_eddystone_def except_Exception_Some_iff
      csv_parse_eddystone_body_def try_bind_Inr_iff Let_def dict_update_def split: if_splits)

text \<open>
  Claim C8. Whenever a parser of either script returns a dictionary, its \<^verbatim>\<open>raw_data\<close>
  is the hexadecimal text of the buffer the parser was given; that text has only
  the digits 0-9 and a-f, and decoding it gives the buffer back, byte for byte.
\<close>

theorem C8_raw_data_roundtrip:
  "(parse_ibeacon d = Inr (Some r) \<longrightarrow> map_of r ''raw_data'' = Some (PyStr (bytes_hex d))) \<and>
   (parse_eddystone d = Inr (Some r) \<longrightarrow> map_of r ''raw_data'' = Some (PyStr (bytes_hex d))) \<and>
   (csv_parse_ibeacon d = Inr (Some r) \<longrightarrow> map_of r ''raw_data'' = Some (PyStr (bytes_hex d))) \<and>
   (csv_parse_eddystone d = Inr (Some r) \<longrightarrow> map_of r ''raw_data'' = Some (PyStr (bytes_hex d))) \<and>
   set (bytes_hex d) \<subseteq> set ''0123456789abcdef'' \<and>
   bytes_fromhex (bytes_hex d) = Some d"
  using parse_ibeacon_raw_data [of d r] parse_eddystone_raw_data [of d r]
    csv_parse_ibeacon_raw_data [of d r] csv_parse_eddystone_raw_data [of d r]
    bytes_hex_lowercase [of d] bytes_fromhex_bytes_hex [of d]
  by blast

text \<open>
  The theorem at the telemetry buffer and at the known-good iBeacon buffer: the
  parsers return dictionaries there, and the text decodes to the buffer.
\<close>

theorem C8_raw_data_witness:
  "result_get ''raw_data'' (parse_eddystone TLM_example)
     = Some (PyStr ''20000be40c980000000500000578'') \<and>
   bytes_fromhex ''20000be40c980000000500000578'' = Some TLM_example \<and>
   result_get ''raw_data'' (csv_parse_ibeacon iBeacon_example)
     = Some (PyStr ''0215e2c56db5dffb48d2b060d0f5a71096e000010002c5'') \<and>
   bytes_fromhex ''0215e2c56db5dffb48d2b060d0f5a71096e000010002c5'' = Some iBeacon_example"
proof -
  have ht: "bytes_hex TLM_example = ''20000be40c980000000500000578''"
    by (simp add: TLM_example_def bytes_hex_def byte_hex_def hex_digit_def)
  have hi: "bytes_hex iBeacon_example = ''0215e2c56db5dffb48d2b060d0f5a71096e000010002c5''"
    by (simp add: iBeacon_example_def known_good_uuid_def bytes_hex_def byte_hex_def hex_digit_def)
  note t = C8_raw_data_roundtrip [of TLM_example
      "[(''type'', PyStr ''Eddystone''),
        (''frame_type'', PyStr ''0x20''),
        (''raw_data'', PyStr ''20000be40c980000000500000578''),
        (''frame_type_name'', PyStr ''TLM''),
        (''version'', PyInt 0),
        (''battery_voltage'', PyInt 3044),
        (''temperature'', PyFloat 12.59375),
        (''advertising_count'', PyInt 5),
        (''seconds_since_boot'', PyInt 1400)]", unfolded ht]
  note i = C8_raw_data_roundtrip [of iBeacon_example
      "[(''beacon_type'', PyStr ''iBeacon''),
        (''uuid'', PyStr ''e2c56db5-dffb-48d2-b060-d0f5a71096e0''),
        (''major'', PyInt 1), (''minor'', PyInt 2), (''tx_power'', PyInt (- 59)),
        (''raw_data'', PyStr (bytes_hex iBeacon_example))]"]
  have "bytes_fromhex ''20000be40c980000000500000578'' = Some TLM_example"
    using t by blast
  moreover have "bytes_fromhex (bytes_hex iBeacon_example) = Some iBeacon_example"
    using i by blast
  moreover have "result_get ''raw_data'' (parse_eddystone TLM_example)
     = Some (PyStr ''20000be40c980000000500000578'')"
    unfolding TLM_example_decoded result_get.simps
    by (rule t [THEN conjunct2, THEN conjunct1, THEN mp, OF TLM_example_decoded])
  moreover have "result_get ''raw_data'' (csv_parse_ibeacon iBeacon_example)
     = Some (PyStr (bytes_hex iBeacon_example))"
    unfolding csv_iBeacon_example_decoded result_get.simps
    by (rule i [THEN conjunct2, THEN conjunct2, THEN conjunct1, THEN mp,
          OF csv_iBeacon_example_decoded])
  ultimately show ?thesis unfolding hi by simp
qed

subsection \<open>The manufacturer-data dispatcher\<close>

lemma format_0x04X_apple: "format_0x04X 0x004C = ''0x004C''"
  by (simp add: format_0x04X_def digits16.simps HEX_digit_def Let_def numeral_2_eq_2)

lemma format_0x04X_0999: "format_0x04X 0x0999 = ''0x0999''"
  by (simp add: format_0x04X_def digits16.simps HEX_digit_def Let_def)

lemma parse_ibeacon_short: "length d < 23 \<Longrightarrow> parse_ibeacon d = Inr None"
  by (simp add: parse_ibeacon_def parse_ibeacon_body_def)

lemma csv_parse_ibeacon_short: "length d < 23 \<Longrightarrow> csv_parse_ibeacon d = Inr None"
  by (simp add: csv_parse_ibeacon_def csv_parse_ibeacon_body_def)

lemma loop_step_other:
  "c \<noteq> APPLE_COMPANY_ID \<Longrightarrow>
     parse_manufacturer_loop r [(c, data)]
       = Inr (AList.update ''raw_data'' (PyStr (bytes_hex data))
               (AList.update ''company_id'' (PyStr (format_0x04X c)) r))"
  by (simp add: Let_def)

lemma csv_loop_step_other:
  "c \<noteq> APPLE_COMPANY_ID \<Longrightarrow>
     csv_parse_manufacturer_loop r [(c, data)]
       = Inr (AList.update ''raw_data'' (PyStr (bytes_hex data))
               (AList.update ''company_id'' (PyStr (format_0x04X c)) r))"
  by (simp add: Let_def)

lemma loop_step_apple_short:
  "length data < 23 \<Longrightarrow>
     parse_manufacturer_loop r [(APPLE_COMPANY_ID, data)]
       = Inr (AList.update ''company_id'' (PyStr (format_0x04X APPLE_COMPANY_ID)) r)"
  by (simp add: Let_def parse_ibeacon_short)

lemma csv_loop_step_apple_short:
  "length data < 23 \<Longrightarrow>
     csv_parse_manufacturer_loop r [(APPLE_COMPANY_ID, data)]
       = Inr (AList.update ''company_id'' (PyStr (format_0x04X APPLE_COMPANY_ID)) r)"
  by (simp add: Let_def csv_parse_ibeacon_short)

lemma loop_step_apple_long:
  assumes "23 \<le> length data"
  shows "parse_manufacturer_loop r [(APPLE_COMPANY_ID, data)]
       = Inr (dict_update (AList.update ''company_id'' (PyStr (format_0x04X APPLE_COMPANY_ID)) r)
          [(''type'', PyStr ''iBeacon''),
           (''uuid'', PyStr (hyphenate_8_4_4_4_12 (bytes_hex (take 16 (drop 2 data))))),
           (''major'', PyInt (uint (data ! 18) * 256 + uint (data ! 19))),
           (''minor'', PyInt (uint (data ! 20) * 256 + uint (data ! 21))),
           (''tx_power'', PyInt (sint (data ! 22))),
           (''raw_data'', PyStr (bytes_hex data))])"
  by (simp add: Let_def parse_ibeacon_long [OF assms])

lemma csv_loop_step_apple_long:
  assumes "23 \<le> length data"
  shows "csv_parse_manufacturer_loop r [(APPLE_COMPANY_ID, data)]
       = Inr (dict_update (AList.update ''company_id'' (PyStr (format_0x04X APPLE_COMPANY_ID)) r)
          [(''beacon_type'', PyStr ''iBeacon''),
           (''uuid'', PyStr (hyphenate_8_4_4_4_12 (bytes_hex (take 16 (drop 2 data))))),
           (''major'', PyInt (uint (data ! 18) * 256 + uint (data ! 19))),
           (''minor'', PyInt (uint (data ! 20) * 256 + uint (data ! 21))),
           (''tx_power'', PyInt (sint (data ! 22))),
           (''raw_data'', PyStr (bytes_hex data))])"
  by (simp add: Let_def csv_parse_ibeacon_long [OF assms])

lemma parse_ibeacon_returns: "\<exists>r. parse_ibeacon d = Inr r"
  by (simp add: parse_ibeacon_def except_Exception_returns)

lemma csv_parse_ibeacon_returns: "\<exists>r. csv_parse_ibeacon d = Inr r"
  by (simp add: csv_parse_ibeacon_def except_Exception_returns)

lemma loop_returns: "\<exists>r'. parse_manufacturer_loop r es = Inr r'"
proof (induction es arbitrary: r)
  case Nil
  then show ?case by simp
next
  case (Cons e es)
  obtain c data where e: "e = (c, data)" by (cases e)
  obtain i where i: "parse_ibeacon data = Inr i" using parse_ibeacon_returns by blast
  show ?case unfolding e using Cons.IH by (simp add: Let_def i)
qed

lemma csv_loop_returns: "\<exists>r'. csv_parse_manufacturer_loop r es = Inr r'"
proof (induction es arbitrary: r)
  case Nil
  then show ?case by simp
next
  case (Cons e es)
  obtain c data where e: "e = (c, data)" by (cases e)
  obtain i where i: "csv_parse_ibeacon data = Inr i" using csv_parse_ibeacon_returns by blast
  show ?case unfolding e using Cons.IH by (simp add: Let_def i)
qed

lemma loop_append:
  "parse_manufacturer_loop r es = Inr r' \<Longrightarrow>
     parse_manufacturer_loop r (es @ fs) = parse_manufacturer_loop r' fs"
proof (induction es arbitrary: r)
  case Nil
  then show ?case by simp
next
  case (Cons e es)
  obtain c data where e: "e = (c, data)" by (cases e)
  obtain i where i: "parse_ibeacon data = Inr i" using parse_ibeacon_returns by blast
  show ?case using Cons.prems Cons.IH unfolding e
    by (simp add: Let_def i split: if_splits)
qed

lemma csv_loop_append:
  "csv_parse_manufacturer_loop r es = Inr r' \<Longrightarrow>
     csv_parse_manufacturer_loop r (es @ fs) = csv_parse_manufacturer_loop r' fs"
proof (induction es arbitrary: r)
  case Nil
  then show ?case by simp
next
  case (Cons e es)
  obtain c data where e: "e = (c, data)" by (cases e)
  obtain i where i: "csv_parse_ibeacon data = Inr i" using csv_parse_ibeacon_returns by blast
  show ?case using Cons.prems Cons.IH unfolding e
    by (simp add: Let_def i split: if_splits)
qed

text \<open>
  Claim C2 at the mapping with the single entry 0x004C and a 3-byte payload. The
  dispatcher of either script returns a dictionary with \<^verbatim>\<open>company_id\<close> only: no
  iBeacon field and no \<^verbatim>\<open>raw_data\<close>. The \<^verbatim>\<open>else\<close> branch that stores \<^verbatim>\<open>raw_data\<close> belongs
  to the test of the company identifier, so it runs for the same payload under the
  identifier 0x0999 and not after a failed iBeacon decode.
\<close>

theorem C2_apple_short_payload_has_no_raw_data:
  "length short_apple_payload < 23 \<and>
   parse_manufacturer_data [(0x004C, short_apple_payload)]
     = Inr [(''company_id'', PyStr ''0x004C'')] \<and>
   csv_parse_manufacturer_data [(0x004C, short_apple_payload)]
     = Inr [(''company_id'', PyStr ''0x004C'')] \<and>
   parse_manufacturer_data [(0x0999, short_apple_payload)]
     = Inr [(''company_id'', PyStr ''0x0999''), (''raw_data'', PyStr ''021501'')] \<and>
   csv_parse_manufacturer_data [(0x0999, short_apple_payload)]
     = Inr [(''company_id'', PyStr ''0x0999''), (''raw_data'', PyStr ''021501'')]"
proof -
  have l: "length short_apple_payload < 23" by (simp add: short_apple_payload_def)
  have h: "bytes_hex short_apple_payload = ''021501''"
    by (simp add: short_apple_payload_def bytes_hex_def byte_hex_def hex_digit_def)
  have n: "(0x0999 :: nat) \<noteq> APPLE_COMPANY_ID" by (simp add: APPLE_COMPANY_ID_def)
  have a: "(0x004C :: nat) = APPLE_COMPANY_ID" by (simp add: APPLE_COMPANY_ID_def)
  show ?thesis
    unfolding parse_manufacturer_data_def csv_parse_manufacturer_data_def
      loop_step_other [OF n] csv_loop_step_other [OF n] a
      loop_step_apple_short [OF l] csv_loop_step_apple_short [OF l] h
    using l by (simp add: a [symmetric] format_0x04X_apple format_0x04X_0999)
qed

lemma loop_last_wins:
  assumes r0: "parse_manufacturer_loop [] es = Inr r0"
  shows "\<exists>r. parse_manufacturer_loop [] es = Inr r0 \<and>
     parse_manufacturer_loop [] (es @ [(c, data)]) = Inr r \<and>
     map_of r ''company_id'' = Some (PyStr (format_0x04X c)) \<and>
     (c \<noteq> APPLE_COMPANY_ID \<longrightarrow>
        map_of r ''raw_data'' = Some (PyStr (bytes_hex data)) \<and>
        (\<forall>k. k \<noteq> ''company_id'' \<and> k \<noteq> ''raw_data'' \<longrightarrow> map_of r k = map_of r0 k)) \<and>
     (c = APPLE_COMPANY_ID \<and> 23 \<le> length data \<longrightarrow>
        (\<forall>k \<in> {''type'', ''uuid'', ''major'', ''minor'', ''tx_power'', ''raw_data''}.
            map_of r k = result_get k (parse_ibeacon data)) \<and>
        (\<forall>k. k \<notin> {''company_id'', ''type'', ''uuid'', ''major'', ''minor'', ''tx_power'',
                    ''raw_data''} \<longrightarrow> map_of r k = map_of r0 k)) \<and>
     (c = APPLE_COMPANY_ID \<and> length data < 23 \<longrightarrow>
        (\<forall>k. k \<noteq> ''company_id'' \<and> k \<noteq> ''raw_data'' \<longrightarrow> map_of r k = map_of r0 k))"
proof (cases "c = APPLE_COMPANY_ID")
  case False
  show ?thesis
    unfolding loop_append [OF r0] loop_step_other [OF False]
    by (simp add: r0 False update_conv')
next
  case apple: True
  show ?thesis
  proof (cases "23 \<le> length data")
    case True
    then have long: "\<not> length data < 23" by simp
    show ?thesis
      unfolding loop_append [OF r0] apple loop_step_apple_long [OF True]
        parse_ibeacon_long [OF True]
      by (simp add: r0 True long dict_update_def update_conv')
  next
    case False
    then have short: "length data < 23" by simp
    show ?thesis
      unfolding loop_append [OF r0] apple loop_step_apple_short [OF short]
      by (simp add: r0 False short update_conv')
  qed
qed

lemma csv_loop_last_wins:
  assumes r0: "csv_parse_manufacturer_loop [] es = Inr r0"
  shows "\<exists>r. csv_parse_manufacturer_loop [] es = Inr r0 \<and>
     csv_parse_manufacturer_loop [] (es @ [(c, data)]) = Inr r \<and>
     map_of r ''company_id'' = Some (PyStr (format_0x04X c)) \<and>
     (c \<noteq> APPLE_COMPANY_ID \<longrightarrow>
        map_of r ''raw_data'' = Some (PyStr (bytes_hex data)) \<and>
        (\<forall>k. k \<noteq> ''company_id'' \<and> k \<noteq> ''raw_data'' \<longrightarrow> map_of r k = map_of r0 k)) \<and>
     (c = APPLE_COMPANY_ID \<and> 23 \<le> length data \<longrightarrow>
        (\<forall>k \<in> {''beacon_type'', ''uuid'', ''major'', ''minor'', ''tx_power'', ''raw_data''}.
            map_of r k = result_get k (csv_parse_ibeacon data)) \<and>
        (\<forall>k. k \<notin> {''company_id'', ''beacon_type'', ''uuid'', ''major'', ''minor'', ''tx_power'',
                    ''raw_data''} \<longrightarrow> map_of r k = map_of r0 k)) \<and>
     (c = APPLE_COMPANY_ID \<and> length data < 23 \<longrightarrow>
        (\<forall>k. k \<noteq> ''company_id'' \<and> k \<noteq> ''raw_data'' \<longrightarrow> map_of r k = map_of r0 k))"
proof (cases "c = APPLE_COMPANY_ID")
  case False
  show ?thesis
    unfolding csv_loop_append [OF r0] csv_loop_step_other [OF False]
    by (simp add: r0 False update_conv')
next
  case apple: True
  show ?thesis
  proof (cases "23 \<le> length data")
    case True
    then have long: "\<not> length data < 23" by simp
    show ?thesis
      unfolding csv_loop_append [OF r0] apple csv_loop_step_apple_long [OF True]
        csv_parse_ibeacon_long [OF True]
      by (simp add: r0 True long dict_update_def update_conv')
  next
    case False
    then have short: "length data < 23" by simp
    show ?thesis
      unfolding csv_loop_append [OF r0] apple csv_loop_step_apple_short [OF short]
      by (simp add: r0 False short update_conv')
  qed
qed

text \<open>
  Claim C6, as amended. The dispatcher of either script never raises, and after the
  entries \<open>es\<close> and a last entry \<open>(c, data)\<close> its dictionary \<open>r\<close> relates to the dictionary
  \<open>r0\<close> of \<open>es\<close> alone key by key: \<^verbatim>\<open>company_id\<close> is that of the last entry; when the
  last entry is not Apple's, \<^verbatim>\<open>raw_data\<close> is the hexadecimal text of its payload
  and every other key is as in \<open>r0\<close>; when the last entry is Apple's with at least
  23 bytes, the six keys of the iBeacon dictionary are those of its payload and
  every other key is as in \<open>r0\<close>; when the last entry is Apple's with fewer than 23
  bytes, every key other than \<^verbatim>\<open>company_id\<close> and \<^verbatim>\<open>raw_data\<close> is as in \<open>r0\<close> (what
  becomes of \<^verbatim>\<open>raw_data\<close> there is the subject of claim C2). Apart from that one
  key in that one case, the keys that only earlier entries wrote survive.
\<close>

theorem C6_last_write_wins_per_key:
  "(\<exists>r0 r. parse_manufacturer_data es = Inr r0 \<and>
     parse_manufacturer_data (es @ [(c, data)]) = Inr r \<and>
     map_of r ''company_id'' = Some (PyStr (format_0x04X c)) \<and>
     (c \<noteq> APPLE_COMPANY_ID \<longrightarrow>
        map_of r ''raw_data'' = Some (PyStr (bytes_hex data)) \<and>
        (\<forall>k. k \<noteq> ''company_id'' \<and> k \<noteq> ''raw_data'' \<longrightarrow> map_of r k = map_of r0 k)) \<and>
     (c = APPLE_COMPANY_ID \<and> 23 \<le> length data \<longrightarrow>
        (\<forall>k \<in> {''type'', ''uuid'', ''major'', ''minor'', ''tx_power'', ''raw_data''}.
            map_of r k = result_get k (parse_ibeacon data)) \<and>
        (\<forall>k. k \<notin> {''company_id'', ''type'', ''uuid'', ''major'', ''minor'', ''tx_power'',
                    ''raw_data''} \<longrightarrow> map_of r k = map_of r0 k)) \<and>
     (c = APPLE_COMPANY_ID \<and> length data < 23 \<longrightarrow>
        (\<forall>k. k \<noteq> ''company_id'' \<and> k \<noteq> ''raw_data'' \<longrightarrow> map_of r k = map_of r0 k))) \<and>
   (\<exists>r0 r. csv_parse_manufacturer_data es = Inr r0 \<and>
     csv_parse_manufacturer_data (es @ [(c, data)]) = Inr r \<and>
     map_of r ''company_id'' = Some (PyStr (format_0x04X c)) \<and>
     (c \<noteq> APPLE_COMPANY_ID \<longrightarrow>
        map_of r ''raw_data'' = Some (PyStr (bytes_hex data)) \<and>
        (\<forall>k. k \<noteq> ''company_id'' \<and> k \<noteq> ''raw_data'' \<longrightarrow> map_of r k = map_of r0 k)) \<and>
     (c = APPLE_COMPANY_ID \<and> 23 \<le> length data \<longrightarrow>
        (\<forall>k \<in> {''beacon_type'', ''uuid'', ''major'', ''minor'', ''tx_power'', ''raw_data''}.
            map_of r k = result_get k (csv_parse_ibeacon data)) \<and>
        (\<forall>k. k \<notin> {''company_id'', ''beacon_type'', ''uuid'', ''major'', ''minor'', ''tx_power'',
                    ''raw_data''} \<longrightarrow> map_of r k = map_of r0 k)) \<and>
     (c = APPLE_COMPANY_ID \<and> length data < 23 \<longrightarrow>
        (\<forall>k. k \<noteq> ''company_id'' \<and> k \<noteq> ''raw_data'' \<longrightarrow> map_of r k = map_of r0 k)))"
proof (rule conjI)
  obtain r0 where r0: "parse_manufacturer_loop [] es = Inr r0" using loop_returns by blast
  show "\<exists>r0 r. parse_manufacturer_data es = Inr r0 \<and>
     parse_manufacturer_data (es @ [(c, data)]) = Inr r \<and>
     map_of r ''company_id'' = Some (PyStr (format_0x04X c)) \<and>
     (c \<noteq> APPLE_COMPANY_ID \<longrightarrow>
        map_of r ''raw_data'' = Some (PyStr (bytes_hex data)) \<and>
        (\<forall>k. k \<noteq> ''company_id'' \<and> k \<noteq> ''raw_data'' \<longrightarrow> map_of r k = map_of r0 k)) \<and>
     (c = APPLE_COMPANY_ID \<and> 23 \<le> length data \<longrightarrow>
        (\<forall>k \<in> {''type'', ''uuid'', ''major'', ''minor'', ''tx_power'', ''raw_data''}.
            map_of r k = result_get k (parse_ibeacon data)) \<and>
        (\<forall>k. k \<notin> {''company_id'', ''type'', ''uuid'', ''major'', ''minor'', ''tx_power'',
                    ''raw_data''} \<longrightarrow> map_of r k = map_of r0 k)) \<and>
     (c = APPLE_COMPANY_ID \<and> length data < 23 \<longrightarrow>
        (\<forall>k. k \<noteq> ''company_id'' \<and> k \<noteq> ''raw_data'' \<longrightarrow> map_of r k = map_of r0 k))"
    unfolding parse_manufacturer_data_def
    by (rule exI [of _ r0]) (rule loop_last_wins [OF r0])
next
  obtain r0 where r0: "csv_parse_manufacturer_loop [] es = Inr r0"
    using csv_loop_returns by blast
  show "\<exists>r0 r. csv_parse_manufacturer_data es = Inr r0 \<and>
     csv_parse_manufacturer_data (es @ [(c, data)]) = Inr r \<and>
     map_of r ''company_id'' = Some (PyStr (format_0x04X c)) \<and>
     (c \<noteq> APPLE_COMPANY_ID \<longrightarrow>
        map_of r ''raw_data'' = Some (PyStr (bytes_hex data)) \<and>
        (\<forall>k. k \<noteq> ''company_id'' \<and> k \<noteq> ''raw_data'' \<longrightarrow> map_of r k = map_of r0 k)) \<and>
     (c = APPLE_COMPANY_ID \<and> 23 \<le> length data \<longrightarrow>
        (\<forall>k \<in> {''beacon_type'', ''uuid'', ''major'', ''minor'', ''tx_power'', ''raw_data''}.
            map_of r k = result_get k (csv_parse_ibeacon data)) \<and>
        (\<forall>k. k \<notin> {''company_id'', ''beacon_type'', ''uuid'', ''major'', ''minor'', ''tx_power'',
                    ''raw_data''} \<longrightarrow> map_of r k = map_of r0 k)) \<and>
     (c = APPLE_COMPANY_ID \<and> length data < 23 \<longrightarrow>
        (\<forall>k. k \<noteq> ''company_id'' \<and> k \<noteq> ''raw_data'' \<longrightarrow> map_of r k = map_of r0 k))"
    unfolding csv_parse_manufacturer_data_def
    by (rule exI [of _ r0]) (rule csv_loop_last_wins [OF r0])
qed

lemma other_payload_hex: "bytes_hex other_payload = ''010203''"
  by (simp add: other_payload_def bytes_hex_def byte_hex_def hex_digit_def)

lemma company_ids: "(0x004C :: nat) = APPLE_COMPANY_ID" "(0x0999 :: nat) \<noteq> APPLE_COMPANY_ID"
  by (simp_all add: APPLE_COMPANY_ID_def)

lemma single_iBeacon_entry:
  "parse_manufacturer_loop [] [(0x004C, iBeacon_example)] = Inr
     [(''company_id'', PyStr ''0x004C''),
      (''type'', PyStr ''iBeacon''),
      (''uuid'', PyStr ''e2c56db5-dffb-48d2-b060-d0f5a71096e0''),
      (''major'', PyInt 1), (''minor'', PyInt 2), (''tx_power'', PyInt (- 59)),
      (''raw_data'', PyStr (bytes_hex iBeacon_example))]"
  unfolding company_ids(1) loop_step_apple_long [OF iBeacon_example_shape(1)]
    iBeacon_example_shape(2-7) hex_known_good_uuid
  by (simp add: company_ids(1) [symmetric] format_0x04X_apple dict_update_def)

lemma csv_single_iBeacon_entry:
  "csv_parse_manufacturer_loop [] [(0x004C, iBeacon_example)] = Inr
     [(''company_id'', PyStr ''0x004C''),
      (''beacon_type'', PyStr ''iBeacon''),
      (''uuid'', PyStr ''e2c56db5-dffb-48d2-b060-d0f5a71096e0''),
      (''major'', PyInt 1), (''minor'', PyInt 2), (''tx_power'', PyInt (- 59)),
      (''raw_data'', PyStr (bytes_hex iBeacon_example))]"
  unfolding company_ids(1) csv_loop_step_apple_long [OF iBeacon_example_shape(1)]
    iBeacon_example_shape(2-7) hex_known_good_uuid
  by (simp add: company_ids(1) [symmetric] format_0x04X_apple dict_update_def)

text \<open>
  Claim C6 as stated fails at its own mapping: after the entries 0x004C with the
  known-good iBeacon buffer and 0x0999 with three bytes, in this order, the
  dictionary of either script has \<^verbatim>\<open>company_id\<close> and \<^verbatim>\<open>raw_data\<close> of the last entry
  and still the type, \<^verbatim>\<open>uuid\<close>, \<^verbatim>\<open>major\<close>, \<^verbatim>\<open>minor\<close> and \<^verbatim>\<open>tx_power\<close> of the first.
\<close>

theorem C6_earlier_fields_survive_counterexample:
  "parse_manufacturer_data [(0x004C, iBeacon_example), (0x0999, other_payload)] = Inr
     [(''company_id'', PyStr ''0x0999''),
      (''type'', PyStr ''iBeacon''),
      (''uuid'', PyStr ''e2c56db5-dffb-48d2-b060-d0f5a71096e0''),
      (''major'', PyInt 1), (''minor'', PyInt 2), (''tx_power'', PyInt (- 59)),
      (''raw_data'', PyStr ''010203'')] \<and>
   csv_parse_manufacturer_data [(0x004C, iBeacon_example), (0x0999, other_payload)] = Inr
     [(''company_id'', PyStr ''0x0999''),
      (''beacon_type'', PyStr ''iBeacon''),
      (''uuid'', PyStr ''e2c56db5-dffb-48d2-b060-d0f5a71096e0''),
      (''major'', PyInt 1), (''minor'', PyInt 2), (''tx_power'', PyInt (- 59)),
      (''raw_data'', PyStr ''010203'')]"
proof -
  have two: "[(0x004C, iBeacon_example), (0x0999, other_payload)]
      = [(0x004C :: nat, iBeacon_example)] @ [(0x0999, other_payload)]"
    by simp
  show ?thesis
    unfolding parse_manufacturer_data_def csv_parse_manufacturer_data_def two
      loop_append [OF single_iBeacon_entry] csv_loop_append [OF csv_single_iBeacon_entry]
      loop_step_other [OF company_ids(2)] csv_loop_step_other [OF company_ids(2)]
      other_payload_hex
    by (simp add: format_0x04X_0999)
qed

text \<open>
  The theorem at the mapping of the claim (last entry not Apple's), at the two
  entries in the other order (last entry Apple's, with 23 bytes), and at a mapping
  whose last entry is Apple's with 3 bytes.
\<close>

theorem C6_last_write_wins_witness:
  "(\<exists>r0 r. parse_manufacturer_data [(0x004C, iBeacon_example)] = Inr r0 \<and>
      parse_manufacturer_data ([(0x004C, iBeacon_example)] @ [(0x0999, other_payload)]) = Inr r \<and>
      map_of r ''company_id'' = Some (PyStr ''0x0999'') \<and>
      map_of r ''raw_data'' = Some (PyStr ''010203'') \<and>
      map_of r ''uuid'' = map_of r0 ''uuid'' \<and>
      map_of r0 ''uuid'' = Some (PyStr ''e2c56db5-dffb-48d2-b060-d0f5a71096e0'')) \<and>
   (\<exists>r0 r. csv_parse_manufacturer_data [(0x0999, other_payload)] = Inr r0 \<and>
      csv_parse_manufacturer_data ([(0x0999, other_payload)] @ [(APPLE_COMPANY_ID, iBeacon_example)])
        = Inr r \<and>
      map_of r ''company_id'' = Some (PyStr ''0x004C'') \<and>
      map_of r ''raw_data'' = Some (PyStr (bytes_hex iBeacon_example)) \<and>
      map_of r ''uuid'' = Some (PyStr ''e2c56db5-dffb-48d2-b060-d0f5a71096e0'')) \<and>
   (\<exists>r0 r. parse_manufacturer_data [(0x0999, other_payload)] = Inr r0 \<and>
      parse_manufacturer_data ([(0x0999, other_payload)] @ [(APPLE_COMPANY_ID, short_apple_payload)])
        = Inr r \<and>
      map_of r ''company_id'' = Some (PyStr ''0x004C'') \<and>
      map_of r ''uuid'' = map_of r0 ''uuid'' \<and>
      map_of r0 ''uuid'' = None)"
proof (intro conjI)
  show "\<exists>r0 r. parse_manufacturer_data [(0x004C, iBeacon_example)] = Inr r0 \<and>
      parse_manufacturer_data ([(0x004C, iBeacon_example)] @ [(0x0999, other_payload)]) = Inr r \<and>
      map_of r ''company_id'' = Some (PyStr ''0x0999'') \<and>
      map_of r ''raw_data'' = Some (PyStr ''010203'') \<and>
      map_of r ''uuid'' = map_of r0 ''uuid'' \<and>
      map_of r0 ''uuid'' = Some (PyStr ''e2c56db5-dffb-48d2-b060-d0f5a71096e0'')"
    using C6_last_write_wins_per_key
      [of "[(0x004C, iBeacon_example)]" "0x0999" other_payload, THEN conjunct1]
  proof (elim exE conjE)
    fix r0 r
    assume a: "parse_manufacturer_data [(0x004C, iBeacon_example)] = Inr r0"
      and b: "parse_manufacturer_data ([(0x004C, iBeacon_example)] @ [(0x0999, other_payload)])
                = Inr r"
      and c: "map_of r ''company_id'' = Some (PyStr (format_0x04X 0x0999))"
      and o: "0x0999 \<noteq> APPLE_COMPANY_ID \<longrightarrow>
        map_of r ''raw_data'' = Some (PyStr (bytes_hex other_payload)) \<and>
        (\<forall>k. k \<noteq> ''company_id'' \<and> k \<noteq> ''raw_data'' \<longrightarrow> map_of r k = map_of r0 k)"
    note last = o [THEN mp, OF company_ids(2)]
    have c': "map_of r ''company_id'' = Some (PyStr ''0x0999'')"
      using c unfolding format_0x04X_0999 .
    have raw: "map_of r ''raw_data'' = Some (PyStr ''010203'')"
      using last [THEN conjunct1] unfolding other_payload_hex .
    have k: "''uuid'' \<noteq> ''company_id'' \<and> ''uuid'' \<noteq> ''raw_data''" by simp
    have u: "map_of r ''uuid'' = map_of r0 ''uuid''"
      by (rule last [THEN conjunct2, THEN spec, THEN mp, OF k])
    have "Inr r0 = parse_manufacturer_loop [] [(0x004C, iBeacon_example)]"
      using a unfolding parse_manufacturer_data_def by (rule sym)
    then have "r0 = [(''company_id'', PyStr ''0x004C''),
        (''type'', PyStr ''iBeacon''),
        (''uuid'', PyStr ''e2c56db5-dffb-48d2-b060-d0f5a71096e0''),
        (''major'', PyInt 1), (''minor'', PyInt 2), (''tx_power'', PyInt (- 59)),
        (''raw_data'', PyStr (bytes_hex iBeacon_example))]"
      unfolding single_iBeacon_entry by (rule sum.inject(2) [THEN iffD1])
    then have u0: "map_of r0 ''uuid'' = Some (PyStr ''e2c56db5-dffb-48d2-b060-d0f5a71096e0'')"
      by simp
    show ?thesis
      using a b c' raw u u0 by (intro exI conjI)
  qed
next
  show "\<exists>r0 r. csv_parse_manufacturer_data [(0x0999, other_payload)] = Inr r0 \<and>
      csv_parse_manufacturer_data ([(0x0999, other_payload)] @ [(APPLE_COMPANY_ID, iBeacon_example)])
        = Inr r \<and>
      map_of r ''company_id'' = Some (PyStr ''0x004C'') \<and>
      map_of r ''raw_data'' = Some (PyStr (bytes_hex iBeacon_example)) \<and>
      map_of r ''uuid'' = Some (PyStr ''e2c56db5-dffb-48d2-b060-d0f5a71096e0'')"
    using C6_last_write_wins_per_key
      [of "[(0x0999, other_payload)]" APPLE_COMPANY_ID iBeacon_example, THEN conjunct2]
  proof (elim exE conjE)
    fix r0 r
    assume a: "csv_parse_manufacturer_data [(0x0999, other_payload)] = Inr r0"
      and b: "csv_parse_manufacturer_data
                ([(0x0999, other_payload)] @ [(APPLE_COMPANY_ID, iBeacon_example)]) = Inr r"
      and c: "map_of r ''company_id'' = Some (PyStr (format_0x04X APPLE_COMPANY_ID))"
      and o: "APPLE_COMPANY_ID = APPLE_COMPANY_ID \<and> 23 \<le> length iBeacon_example \<longrightarrow>
         (\<forall>k \<in> {''beacon_type'', ''uuid'', ''major'', ''minor'', ''tx_power'', ''raw_data''}.
             map_of r k = result_get k (csv_parse_ibeacon iBeacon_example)) \<and>
         (\<forall>k. k \<notin> {''company_id'', ''beacon_type'', ''uuid'', ''major'', ''minor'', ''tx_power'',
                     ''raw_data''} \<longrightarrow> map_of r k = map_of r0 k)"
    have h: "APPLE_COMPANY_ID = APPLE_COMPANY_ID \<and> 23 \<le> length iBeacon_example"
      using iBeacon_example_shape(1) by (rule conjI [OF refl])
    note f = o [THEN mp, OF h, THEN conjunct1]
    have "map_of r ''uuid'' = result_get ''uuid'' (csv_parse_ibeacon iBeacon_example)"
      by (rule f [THEN bspec]) simp
    then have u: "map_of r ''uuid'' = Some (PyStr ''e2c56db5-dffb-48d2-b060-d0f5a71096e0'')"
      unfolding csv_iBeacon_example_decoded by simp
    have "map_of r ''raw_data'' = result_get ''raw_data'' (csv_parse_ibeacon iBeacon_example)"
      by (rule f [THEN bspec]) simp
    then have raw: "map_of r ''raw_data'' = Some (PyStr (bytes_hex iBeacon_example))"
      unfolding csv_iBeacon_example_decoded by simp
    have c': "map_of r ''company_id'' = Some (PyStr ''0x004C'')"
      using c unfolding company_ids(1) [symmetric] format_0x04X_apple .
    show ?thesis
      using a b c' raw u by (intro exI conjI)
  qed
next
  show "\<exists>r0 r. parse_manufacturer_data [(0x0999, other_payload)] = Inr r0 \<and>
      parse_manufacturer_data ([(0x0999, other_payload)] @ [(APPLE_COMPANY_ID, short_apple_payload)])
        = Inr r \<and>
      map_of r ''company_id'' = Some (PyStr ''0x004C'') \<and>
      map_of r ''uuid'' = map_of r0 ''uuid'' \<and>
      map_of r0 ''uuid'' = None"
    using C6_last_write_wins_per_key
      [of "[(0x0999, other_payload)]" APPLE_COMPANY_ID short_apple_payload, THEN conjunct1]
  proof (elim exE conjE)
    fix r0 r
    assume a: "parse_manufacturer_data [(0x0999, other_payload)] = Inr r0"
      and b: "parse_manufacturer_data
                ([(0x0999, other_payload)] @ [(APPLE_COMPANY_ID, short_apple_payload)]) = Inr r"
      and c: "map_of r ''company_id'' = Some (PyStr (format_0x04X APPLE_COMPANY_ID))"
      and o: "APPLE_COMPANY_ID = APPLE_COMPANY_ID \<and> length short_apple_payload < 23 \<longrightarrow>
         (\<forall>k. k \<noteq> ''company_id'' \<and> k \<noteq> ''raw_data'' \<longrightarrow> map_of r k = map_of r0 k)"
    have l: "length short_apple_payload < 23" by (simp add: short_apple_payload_def)
    have h: "APPLE_COMPANY_ID = APPLE_COMPANY_ID \<and> length short_apple_payload < 23"
      using l by (rule conjI [OF refl])
    have k: "''uuid'' \<noteq> ''company_id'' \<and> ''uuid'' \<noteq> ''raw_data''" by simp
    have u: "map_of r ''uuid'' = map_of r0 ''uuid''"
      by (rule o [THEN mp, OF h, THEN spec, THEN mp, OF k])
    have "Inr r0 = parse_manufacturer_loop [] [(0x0999, other_payload)]"
      using a unfolding parse_manufacturer_data_def by (rule sym)
    then have "r0 = AList.update ''raw_data'' (PyStr (bytes_hex other_payload))
        (AList.update ''company_id'' (PyStr (format_0x04X 0x0999)) [])"
      unfolding loop_step_other [OF company_ids(2)] by (rule sum.inject(2) [THEN iffD1])
    then have u0: "map_of r0 ''uuid'' = None"
      by simp
    have c': "map_of r ''company_id'' = Some (PyStr ''0x004C'')"
      using c unfolding company_ids(1) [symmetric] format_0x04X_apple .
    show ?thesis
      using a b c' u u0 by (intro exI conjI)
  qed
qed

end
